theory Spec2Isabelle
  imports Complex_Main "HOL-Library.Char_ord" "HOL-Library.List_Lexorder"
begin

section \<open>Python values\<close>

text \<open>
  The three programs pass around what \<open>json.loads\<close> and \<open>resp.json()\<close> return: \<open>None\<close>,
  booleans, numbers, strings, lists and dictionaries. A dictionary is an association list
  read with \<open>map_of\<close>.
\<close>

subsection \<open>Floats\<close>

text \<open>
  A Python \<open>float\<close> is an IEEE-754 double: 53 significant bits, the unit in the last place
  never below \<open>2 ^ (-1074)\<close>. The model holds the value of a float, a real number, and rounds
  where Python rounds: to the nearest double, a tie going to the even neighbour. The model
  has no infinities and no NaN: a number beyond the largest double keeps a finite value, on
  the grid of the last binade, where Python has \<open>inf\<close>.
\<close>

definition pow2 :: "int \<Rightarrow> real" where
  "pow2 e = (if 0 \<le> e then 2 ^ nat e else 1 / 2 ^ nat (- e))"

definition round_half_even :: "real \<Rightarrow> int" where
  "round_half_even x =
     (let f = \<lfloor>x\<rfloor>; d = x - of_int f in
      if d < 1 / 2 then f else if 1 / 2 < d then f + 1 else if even f then f else f + 1)"

text \<open>
  The exponent of the unit in the last place of the doubles around a magnitude \<open>a\<close>: the
  least \<open>e\<close> from \<open>-1074\<close> on with \<open>a < 2 ^ (e + 53)\<close>, and 971 at most.
\<close>

fun ulp_search :: "nat \<Rightarrow> int \<Rightarrow> real \<Rightarrow> int" where
  "ulp_search 0 e a = e"
| "ulp_search (Suc n) e a = (if a < pow2 (e + 53) then e else ulp_search n (e + 1) a)"

definition ulp_exponent :: "real \<Rightarrow> int" where
  "ulp_exponent r = ulp_search 2045 (- 1074) \<bar>r\<bar>"

definition round_double :: "real \<Rightarrow> real" where
  "round_double r = of_int (round_half_even (r / pow2 (ulp_exponent r))) * pow2 (ulp_exponent r)"

text \<open>
  \<open>x + y\<close>, \<open>x - y\<close>, \<open>x * y\<close> and \<open>x / y\<close> on floats, and a decimal literal of the program
  text such as \<open>0.10\<close>. The only division of the modelled code is by the constant 2.
\<close>

definition float_add :: "real \<Rightarrow> real \<Rightarrow> real" where
  "float_add x y = round_double (x + y)"

definition float_sub :: "real \<Rightarrow> real \<Rightarrow> real" where
  "float_sub x y = round_double (x - y)"

definition float_mul :: "real \<Rightarrow> real \<Rightarrow> real" where
  "float_mul x y = round_double (x * y)"

definition float_div :: "real \<Rightarrow> real \<Rightarrow> real" where
  "float_div x y = round_double (x / y)"

definition float_literal :: "real \<Rightarrow> real" where
  "float_literal r = round_double r"

subsection \<open>Values\<close>

text \<open>
  \<open>JFloat r\<close> is the number \<open>r\<close> of a JSON text; the decoder makes it the double nearest to
  \<open>r\<close>, which is what every reader of the value below sees.
\<close>

datatype json =
    JNull
  | JBool bool
  | JInt int
  | JFloat real
  | JStr string
  | JList "json list"
  | JObj "(string \<times> json) list"

text \<open>The exceptions the modelled code can raise; every handler in it catches all of them.\<close>

datatype pyerr = TypeError | ValueError | KeyError | IndexError | AttributeError | OverflowError

text \<open>
  What the library does with the text of a string is not part of the repository: the parsers
  behind \<open>float(s)\<close>, \<open>int(s)\<close> and \<open>json.loads(s)\<close> are parameters of the model, \<open>None\<close>
  standing for \<open>ValueError\<close> (\<open>JSONDecodeError\<close> for the last); \<open>str_float\<close> gives the number
  the text denotes, which \<open>float\<close> then rounds. So are the two renderings of a value that is
  not a string as text: \<open>format_str\<close> is what an f-string makes of it, \<open>adapt_text\<close> what
  the database driver and a text column make of it.
\<close>

record builtins =
  str_float :: "string \<Rightarrow> real option"
  str_int :: "string \<Rightarrow> int option"
  json_loads :: "string \<Rightarrow> json option"
  format_str :: "json \<Rightarrow> string"
  adapt_text :: "json \<Rightarrow> string"

text \<open>Truth value testing: \<open>if x\<close>, \<open>x or y\<close>, \<open>x and y\<close>.\<close>

fun truthy :: "json \<Rightarrow> bool" where
  "truthy JNull = False"
| "truthy (JBool b) = b"
| "truthy (JInt i) = (i \<noteq> 0)"
| "truthy (JFloat r) = (round_double r \<noteq> 0)"
| "truthy (JStr s) = (s \<noteq> [])"
| "truthy (JList xs) = (xs \<noteq> [])"
| "truthy (JObj kvs) = (kvs \<noteq> [])"

definition py_or :: "json \<Rightarrow> json \<Rightarrow> json" where
  "py_or a b = (if truthy a then a else b)"

text \<open>
  \<open>float(x)\<close> and \<open>int(x)\<close>. An integer converts to the nearest double, and raises
  \<open>OverflowError\<close> when that would lie beyond the largest one, which is from
  \<open>2 ^ 1024 - 2 ^ 970\<close> on.
\<close>

fun py_float :: "builtins \<Rightarrow> json \<Rightarrow> pyerr + real" where
  "py_float bi JNull = Inl TypeError"
| "py_float bi (JBool b) = Inr (if b then 1 else 0)"
| "py_float bi (JInt i) =
     (if \<bar>i\<bar> < 2 ^ 1024 - 2 ^ 970 then Inr (round_double (of_int i)) else Inl OverflowError)"
| "py_float bi (JFloat r) = Inr (round_double r)"
| "py_float bi (JStr s) =
     (case str_float bi s of None \<Rightarrow> Inl ValueError | Some r \<Rightarrow> Inr (round_double r))"
| "py_float bi (JList xs) = Inl TypeError"
| "py_float bi (JObj kvs) = Inl TypeError"

fun py_int :: "builtins \<Rightarrow> json \<Rightarrow> pyerr + int" where
  "py_int bi JNull = Inl TypeError"
| "py_int bi (JBool b) = Inr (if b then 1 else 0)"
| "py_int bi (JInt i) = Inr i"
| "py_int bi (JFloat r) =
     Inr (if 0 \<le> round_double r then \<lfloor>round_double r\<rfloor> else \<lceil>round_double r\<rceil>)"
| "py_int bi (JStr s) = (case str_int bi s of None \<Rightarrow> Inl ValueError | Some i \<Rightarrow> Inr i)"
| "py_int bi (JList xs) = Inl TypeError"
| "py_int bi (JObj kvs) = Inl TypeError"

text \<open>\<open>x.get(key, default)\<close>: only a dictionary has the method.\<close>

fun py_get :: "json \<Rightarrow> string \<Rightarrow> json \<Rightarrow> pyerr + json" where
  "py_get (JObj kvs) k dflt = Inr (case map_of kvs k of None \<Rightarrow> dflt | Some v \<Rightarrow> v)"
| "py_get x k dflt = Inl AttributeError"

text \<open>\<open>x[key]\<close> with a string key.\<close>

fun py_item :: "json \<Rightarrow> string \<Rightarrow> pyerr + json" where
  "py_item (JObj kvs) k = (case map_of kvs k of None \<Rightarrow> Inl KeyError | Some v \<Rightarrow> Inr v)"
| "py_item x k = Inl TypeError"

text \<open>\<open>x[0]\<close> and \<open>x[-1]\<close>. A dictionary decoded from JSON has string keys only.\<close>

fun py_first :: "json \<Rightarrow> pyerr + json" where
  "py_first (JList xs) = (case xs of [] \<Rightarrow> Inl IndexError | x # _ \<Rightarrow> Inr x)"
| "py_first (JStr s) = (case s of [] \<Rightarrow> Inl IndexError | c # _ \<Rightarrow> Inr (JStr [c]))"
| "py_first (JObj kvs) = Inl KeyError"
| "py_first x = Inl TypeError"

fun py_last :: "json \<Rightarrow> pyerr + json" where
  "py_last (JList xs) = (if xs = [] then Inl IndexError else Inr (last xs))"
| "py_last (JStr s) = (if s = [] then Inl IndexError else Inr (JStr [last s]))"
| "py_last (JObj kvs) = Inl KeyError"
| "py_last x = Inl TypeError"

text \<open>\<open>x[:50]\<close>.\<close>

fun py_slice50 :: "json \<Rightarrow> pyerr + json" where
  "py_slice50 (JStr s) = Inr (JStr (take 50 s))"
| "py_slice50 (JList xs) = Inr (JList (take 50 xs))"
| "py_slice50 x = Inl TypeError"

text \<open>\<open>for x in xs\<close>: the items a loop visits.\<close>

fun py_iter :: "json \<Rightarrow> pyerr + json list" where
  "py_iter (JList xs) = Inr xs"
| "py_iter (JStr s) = Inr (map (\<lambda>c. JStr [c]) s)"
| "py_iter (JObj kvs) = Inr (map (\<lambda>k. JStr k) (remdups (map fst kvs)))"
| "py_iter x = Inl TypeError"

text \<open>Sequencing of computations that may raise.\<close>

definition bindE :: "pyerr + 'a \<Rightarrow> ('a \<Rightarrow> pyerr + 'b) \<Rightarrow> pyerr + 'b" where
  "bindE m f = (case m of Inl e \<Rightarrow> Inl e | Inr x \<Rightarrow> f x)"

text \<open>A comprehension or loop body applied to each item in order, stopping at the first raise.\<close>

fun mapE :: "('a \<Rightarrow> pyerr + 'b) \<Rightarrow> 'a list \<Rightarrow> pyerr + 'b list" where
  "mapE f [] = Inr []"
| "mapE f (x # xs) = bindE (f x) (\<lambda>y. bindE (mapE f xs) (\<lambda>ys. Inr (y # ys)))"

section \<open>Order-book rows\<close>

text \<open>
  Both writers of the table \<open>orderbook_snapshots\<close> (\<open>WebSocketCollector.store_book_snapshot\<close>
  and \<open>OrderbookPoller.store_snapshot\<close>) compute the derived columns with the same four
  lines; they are modelled once.
\<close>

text \<open>
  \<open>sum(float(b.get('size', 0)) * float(b.get('price', 0)) for b in bids)\<close>: the products
  are added from the left, starting from 0, each partial sum rounded (the \<open>sum\<close> of CPython
  up to 3.11; from 3.12 on it compensates the rounding errors of three or more floats).
\<close>

definition level_value :: "builtins \<Rightarrow> json \<Rightarrow> pyerr + real" where
  "level_value bi b =
     bindE (py_get b ''size'' (JInt 0)) (\<lambda>s.
     bindE (py_float bi s) (\<lambda>fs.
     bindE (py_get b ''price'' (JInt 0)) (\<lambda>p.
     bindE (py_float bi p) (\<lambda>fp.
     Inr (float_mul fs fp)))))"

definition depth :: "builtins \<Rightarrow> json \<Rightarrow> pyerr + real" where
  "depth bi levels =
     bindE (py_iter levels) (\<lambda>bs.
     bindE (mapE (level_value bi) bs) (\<lambda>vs.
     Inr (foldl float_add 0 vs)))"

text \<open>\<open>float(bids[0]['price']) if bids else None\<close>\<close>

definition best_price :: "builtins \<Rightarrow> json \<Rightarrow> pyerr + real option" where
  "best_price bi levels =
     (if truthy levels
      then bindE (py_first levels) (\<lambda>l.
           bindE (py_item l ''price'') (\<lambda>p.
           bindE (py_float bi p) (\<lambda>r.
           Inr (Some r))))
      else Inr None)"

text \<open>
  \<open>best_ask - best_bid if (best_bid and best_ask) else None\<close>: \<open>None\<close> and \<open>0.0\<close> are both
  false.
\<close>

fun spread_of :: "real option \<Rightarrow> real option \<Rightarrow> real option" where
  "spread_of (Some best_bid) (Some best_ask) =
     (if best_bid \<noteq> 0 \<and> best_ask \<noteq> 0 then Some (float_sub best_ask best_bid) else None)"
| "spread_of best_bid best_ask = None"

text \<open>
  A row of \<open>orderbook_snapshots\<close> as \<open>setup_db\<close> declares the table. The key \<open>id SERIAL
  PRIMARY KEY\<close> is assigned by the database and is the row's position in the table; the
  column \<open>captured_at\<close> takes its default. The index on \<open>(token_id, timestamp)\<close> is a plain
  index, not a unique one. The JSONB columns hold what \<open>json.dumps\<close> was given.
\<close>

record snapshot_row =
  ob_token_id :: json
  ob_timestamp :: int
  ob_bids :: json
  ob_asks :: json
  ob_best_bid :: "real option"
  ob_best_ask :: "real option"
  ob_spread :: "real option"
  ob_bid_depth :: real
  ob_ask_depth :: real

text \<open>The lines both writers share, given the token and the timestamp each computes itself.\<close>

definition book_columns :: "builtins \<Rightarrow> json \<Rightarrow> int \<Rightarrow> json \<Rightarrow> json \<Rightarrow> pyerr + snapshot_row" where
  "book_columns bi token_id timestamp bids asks =
     bindE (depth bi bids) (\<lambda>bid_depth.
     bindE (depth bi asks) (\<lambda>ask_depth.
     bindE (best_price bi bids) (\<lambda>best_bid.
     bindE (best_price bi asks) (\<lambda>best_ask.
     Inr \<lparr>ob_token_id = token_id, ob_timestamp = timestamp, ob_bids = bids, ob_asks = asks,
          ob_best_bid = best_bid, ob_best_ask = best_ask,
          ob_spread = spread_of best_bid best_ask,
          ob_bid_depth = bid_depth, ob_ask_depth = ask_depth\<rparr>))))"

section \<open>Stream collector: storage and dispatch\<close>

record trade_row =
  rt_token_id :: json
  rt_timestamp :: int
  rt_price :: real
  rt_size :: real
  rt_side :: json
  rt_fee_rate_bps :: json

record price_change_row =
  pc_token_id :: json
  pc_timestamp :: int
  pc_price :: real
  pc_size :: real
  pc_side :: json
  pc_best_bid :: "real option"
  pc_best_ask :: "real option"

text \<open>
  The connection is the sequence of INSERTs executed and committed on it, in order; an
  \<open>InsertPriceChanges\<close> is one call of \<open>execute_values\<close>, all of its rows committed
  together. None of the three statements has an ON CONFLICT clause and none of the three
  tables has a constraint besides its serial key, so an executed statement always adds its
  rows. The tables are what the statements have put into them.
\<close>

datatype statement =
    InsertSnapshot snapshot_row
  | InsertTrade trade_row
  | InsertPriceChanges "price_change_row list"

text \<open>
  \<open>cur.execute\<close> and \<open>conn.commit\<close> stand inside the \<open>try\<close> block of each handler, and they
  can raise. The three tables declare \<open>timestamp BIGINT\<close>, so the server refuses a row whose
  timestamp is outside the 64-bit range. Whatever else makes the two calls raise (a lost
  connection, a value the driver cannot adapt) is not in the repository: it is a parameter
  of the connection, which says, given what was executed so far, whether the next INSERT
  goes through.
\<close>

definition fits_bigint :: "int \<Rightarrow> bool" where
  "fits_bigint i \<longleftrightarrow> - (2 ^ 63) \<le> i \<and> i < 2 ^ 63"

fun timestamps_fit :: "statement \<Rightarrow> bool" where
  "timestamps_fit (InsertSnapshot r) = fits_bigint (ob_timestamp r)"
| "timestamps_fit (InsertTrade r) = fits_bigint (rt_timestamp r)"
| "timestamps_fit (InsertPriceChanges rs) = list_all (\<lambda>r. fits_bigint (pc_timestamp r)) rs"

type_synonym database = "statement list \<Rightarrow> statement \<Rightarrow> bool"

definition executes :: "database \<Rightarrow> statement list \<Rightarrow> statement \<Rightarrow> bool" where
  "executes db c s \<longleftrightarrow> timestamps_fit s \<and> db c s"

definition orderbook_snapshots :: "statement list \<Rightarrow> snapshot_row list" where
  "orderbook_snapshots c = concat (map (\<lambda>s. case s of InsertSnapshot r \<Rightarrow> [r] | _ \<Rightarrow> []) c)"

definition realtime_trades :: "statement list \<Rightarrow> trade_row list" where
  "realtime_trades c = concat (map (\<lambda>s. case s of InsertTrade r \<Rightarrow> [r] | _ \<Rightarrow> []) c)"

definition price_changes :: "statement list \<Rightarrow> price_change_row list" where
  "price_changes c = concat (map (\<lambda>s. case s of InsertPriceChanges rs \<Rightarrow> rs | _ \<Rightarrow> []) c)"

text \<open>
  The collector object: its connection, with what it has executed and what it accepts, and
  the three counters of \<open>self.stats\<close>.
\<close>

record collector =
  conn :: "statement list"
  db_accepts :: database
  stats_books :: nat
  stats_price_changes :: nat
  stats_trades :: nat

text \<open>The \<open>try\<close> block of \<open>store_book_snapshot\<close> up to the INSERT.\<close>

definition book_row :: "builtins \<Rightarrow> json \<Rightarrow> pyerr + snapshot_row" where
  "book_row bi data =
     bindE (py_get data ''asset_id'' JNull) (\<lambda>token_id.
     bindE (py_get data ''timestamp'' (JInt 0)) (\<lambda>ts.
     bindE (py_int bi ts) (\<lambda>timestamp.
     bindE (py_get data ''bids'' (JList [])) (\<lambda>bids.
     bindE (py_get data ''asks'' (JList [])) (\<lambda>asks.
     book_columns bi token_id timestamp bids asks)))))"

text \<open>
  \<open>store_book_snapshot\<close>: on an exception, of the lines that build the row or of the INSERT
  and its commit, the handler prints and rolls back: no row is stored and the counter is
  not touched.
\<close>

definition store_book_snapshot :: "builtins \<Rightarrow> collector \<Rightarrow> json \<Rightarrow> collector" where
  "store_book_snapshot bi self data =
     (case book_row bi data of
        Inl e \<Rightarrow> self
      | Inr row \<Rightarrow>
          if executes (db_accepts self) (conn self) (InsertSnapshot row)
          then self\<lparr>conn := conn self @ [InsertSnapshot row],
                    stats_books := stats_books self + 1\<rparr>
          else self)"

definition trade_values :: "builtins \<Rightarrow> json \<Rightarrow> pyerr + trade_row" where
  "trade_values bi data =
     bindE (py_get data ''asset_id'' JNull) (\<lambda>token_id.
     bindE (py_get data ''timestamp'' (JInt 0)) (\<lambda>ts.
     bindE (py_int bi ts) (\<lambda>timestamp.
     bindE (py_get data ''price'' (JInt 0)) (\<lambda>p.
     bindE (py_float bi p) (\<lambda>price.
     bindE (py_get data ''size'' (JInt 0)) (\<lambda>s.
     bindE (py_float bi s) (\<lambda>size.
     bindE (py_get data ''side'' JNull) (\<lambda>side.
     bindE (py_get data ''fee_rate_bps'' JNull) (\<lambda>fee.
     Inr \<lparr>rt_token_id = token_id, rt_timestamp = timestamp, rt_price = price,
          rt_size = size, rt_side = side, rt_fee_rate_bps = fee\<rparr>)))))))))"

definition store_trade :: "builtins \<Rightarrow> collector \<Rightarrow> json \<Rightarrow> collector" where
  "store_trade bi self data =
     (case trade_values bi data of
        Inl e \<Rightarrow> self
      | Inr row \<Rightarrow>
          if executes (db_accepts self) (conn self) (InsertTrade row)
          then self\<lparr>conn := conn self @ [InsertTrade row],
                    stats_trades := stats_trades self + 1\<rparr>
          else self)"

text \<open>\<open>float(c.get('best_bid', 0)) if c.get('best_bid') else None\<close>\<close>

definition optional_float :: "builtins \<Rightarrow> json \<Rightarrow> string \<Rightarrow> pyerr + real option" where
  "optional_float bi c k =
     bindE (py_get c k JNull) (\<lambda>v.
     if truthy v
     then bindE (py_get c k (JInt 0)) (\<lambda>v'. bindE (py_float bi v') (\<lambda>r. Inr (Some r)))
     else Inr None)"

text \<open>The tuple appended to \<open>values\<close> for one entry \<open>c\<close> of the event's \<open>price_changes\<close>.\<close>

definition change_values :: "builtins \<Rightarrow> int \<Rightarrow> json \<Rightarrow> pyerr + price_change_row" where
  "change_values bi timestamp c =
     bindE (py_get c ''asset_id'' JNull) (\<lambda>token_id.
     bindE (py_get c ''price'' (JInt 0)) (\<lambda>p.
     bindE (py_float bi p) (\<lambda>price.
     bindE (py_get c ''size'' (JInt 0)) (\<lambda>s.
     bindE (py_float bi s) (\<lambda>size.
     bindE (py_get c ''side'' JNull) (\<lambda>side.
     bindE (optional_float bi c ''best_bid'') (\<lambda>best_bid.
     bindE (optional_float bi c ''best_ask'') (\<lambda>best_ask.
     Inr \<lparr>pc_token_id = token_id, pc_timestamp = timestamp, pc_price = price,
          pc_size = size, pc_side = side,
          pc_best_bid = best_bid, pc_best_ask = best_ask\<rparr>))))))))"

text \<open>
  The \<open>try\<close> block of \<open>store_price_change\<close> up to \<open>if values\<close>: the tuples of all entries
  are built before anything is executed, so one entry that raises leaves none stored.
\<close>

definition price_change_values :: "builtins \<Rightarrow> json \<Rightarrow> pyerr + price_change_row list" where
  "price_change_values bi data =
     bindE (py_get data ''price_changes'' (JList [])) (\<lambda>changes.
     bindE (py_get data ''timestamp'' (JInt 0)) (\<lambda>ts.
     bindE (py_int bi ts) (\<lambda>timestamp.
     bindE (py_iter changes) (\<lambda>cs.
     mapE (change_values bi timestamp) cs))))"

definition store_price_change :: "builtins \<Rightarrow> collector \<Rightarrow> json \<Rightarrow> collector" where
  "store_price_change bi self data =
     (case price_change_values bi data of
        Inl e \<Rightarrow> self
      | Inr values \<Rightarrow>
          if values \<noteq> [] \<and> executes (db_accepts self) (conn self) (InsertPriceChanges values)
          then self\<lparr>conn := conn self @ [InsertPriceChanges values],
                    stats_price_changes := stats_price_changes self + length values\<rparr>
          else self)"

text \<open>\<open>_process_event\<close>\<close>

definition process_event :: "builtins \<Rightarrow> collector \<Rightarrow> json \<Rightarrow> collector" where
  "process_event bi self data =
     (case data of
        JObj kvs \<Rightarrow>
          (let event_type = (case map_of kvs ''event_type'' of None \<Rightarrow> JNull | Some v \<Rightarrow> v) in
           if event_type = JStr ''book'' then store_book_snapshot bi self data
           else if event_type = JStr ''last_trade_price'' then store_trade bi self data
           else if event_type = JStr ''price_change'' then store_price_change bi self data
           else self)
      | _ \<Rightarrow> self)"

text \<open>\<open>handle_message\<close>: a message that does not decode is passed over.\<close>

definition handle_message :: "builtins \<Rightarrow> collector \<Rightarrow> string \<Rightarrow> collector" where
  "handle_message bi self message =
     (case json_loads bi message of
        None \<Rightarrow> self
      | Some data \<Rightarrow>
          (case data of
             JList items \<Rightarrow> foldl (process_event bi) self items
           | _ \<Rightarrow> process_event bi self data))"

section \<open>Snapshot poller\<close>

text \<open>An entry of the target list built by \<open>get_top_markets\<close>.\<close>

record target =
  token :: json
  slug :: json
  question :: json

text \<open>
  The first \<open>try\<close> block of the loop body of \<open>get_top_markets\<close>, up to the comparison:
  \<open>best_bid = float(m.get('bestBid', 0) or 0)\<close>, \<open>best_ask = float(m.get('bestAsk', 1) or 1)\<close>
  and \<open>mid_price = (best_bid + best_ask) / 2\<close>, in float arithmetic. A best bid that is
  missing or false (\<open>None\<close>, zero, the empty string) counts as 0, such a best ask as 1.
\<close>

definition best_bid_of :: "builtins \<Rightarrow> json \<Rightarrow> pyerr + real" where
  "best_bid_of bi m = bindE (py_get m ''bestBid'' (JInt 0)) (\<lambda>b. py_float bi (py_or b (JInt 0)))"

definition best_ask_of :: "builtins \<Rightarrow> json \<Rightarrow> pyerr + real" where
  "best_ask_of bi m = bindE (py_get m ''bestAsk'' (JInt 1)) (\<lambda>a. py_float bi (py_or a (JInt 1)))"

definition mid_price :: "builtins \<Rightarrow> json \<Rightarrow> pyerr + real" where
  "mid_price bi m =
     bindE (best_bid_of bi m) (\<lambda>best_bid.
     bindE (best_ask_of bi m) (\<lambda>best_ask.
     Inr (float_div (float_add best_bid best_ask) 2)))"

text \<open>
  Whether that block reaches \<open>continue\<close>: \<open>mid_price < 0.10 or mid_price > 0.90\<close>, the two
  bounds being the doubles the literals denote. An exception inside the block is swallowed
  by \<open>except: pass\<close> and the market goes on to the token lookup.
\<close>

definition LOWER_BOUND :: real where
  "LOWER_BOUND = float_literal (10 / 100)"

definition UPPER_BOUND :: real where
  "UPPER_BOUND = float_literal (90 / 100)"

definition skip_extreme :: "builtins \<Rightarrow> json \<Rightarrow> bool" where
  "skip_extreme bi m =
     (case mid_price bi m of
        Inl e \<Rightarrow> False
      | Inr mid \<Rightarrow> mid < LOWER_BOUND \<or> mid > UPPER_BOUND)"

text \<open>
  The second \<open>try\<close> block: \<open>json.loads(token_ids)\<close> and the dictionary appended to
  \<open>tokens\<close> when the decoded value is true. \<open>json.loads\<close> takes text only.
\<close>

definition new_target :: "builtins \<Rightarrow> json \<Rightarrow> json \<Rightarrow> pyerr + target option" where
  "new_target bi m token_ids =
     (case token_ids of
        JStr s \<Rightarrow>
          (case json_loads bi s of
             None \<Rightarrow> Inl ValueError
           | Some ids \<Rightarrow>
               if truthy ids
               then bindE (py_first ids) (\<lambda>tok.
                    bindE (py_get m ''slug'' (JStr ''unknown'')) (\<lambda>sl.
                    bindE (py_get m ''question'' (JStr [])) (\<lambda>q.
                    bindE (py_slice50 q) (\<lambda>q50.
                    Inr (Some \<lparr>token = tok, slug = sl, question = q50\<rparr>)))))
               else Inr None)
      | _ \<Rightarrow> Inl TypeError)"

text \<open>
  The \<open>for m in markets\<close> loop with its accumulator \<open>tokens\<close>. \<open>m.get('clobTokenIds')\<close>
  stands outside both inner \<open>try\<close> blocks, so its exception leaves the loop.
\<close>

fun top_markets_loop :: "builtins \<Rightarrow> nat \<Rightarrow> target list \<Rightarrow> json list \<Rightarrow> pyerr + target list" where
  "top_markets_loop bi limit tokens [] = Inr tokens"
| "top_markets_loop bi limit tokens (m # ms) =
     (if length tokens \<ge> limit then Inr tokens
      else if skip_extreme bi m then top_markets_loop bi limit tokens ms
      else
        (case py_get m ''clobTokenIds'' JNull of
           Inl e \<Rightarrow> Inl e
         | Inr token_ids \<Rightarrow>
             if truthy token_ids
             then (case new_target bi m token_ids of
                     Inr (Some t) \<Rightarrow> top_markets_loop bi limit (tokens @ [t]) ms
                   | _ \<Rightarrow> top_markets_loop bi limit tokens ms)
             else top_markets_loop bi limit tokens ms))"

text \<open>
  \<open>get_top_markets\<close>, given what the Market Directory request produced: an exception of
  \<open>requests.get\<close>, \<open>raise_for_status\<close> or \<open>resp.json()\<close>, or the decoded body. Any
  exception that reaches the outer handler makes the result the empty list.
\<close>

definition get_top_markets :: "builtins \<Rightarrow> nat \<Rightarrow> pyerr + json \<Rightarrow> target list" where
  "get_top_markets bi limit resp =
     (case resp of
        Inl e \<Rightarrow> []
      | Inr markets \<Rightarrow>
          (case bindE (py_iter markets) (top_markets_loop bi limit []) of
             Inl e \<Rightarrow> []
           | Inr tokens \<Rightarrow> tokens))"




text \<open>
  The poller object: its connection, with what it has executed and what it accepts, and the
  two counters of \<open>self.stats\<close>.
\<close>

record poller =
  poller_conn :: "statement list"
  poller_db_accepts :: database
  stats_snapshots :: nat
  stats_errors :: nat

text \<open>\<open>int(time.time() * 1000)\<close> for a clock reading in seconds, a float.\<close>

definition millis :: "real \<Rightarrow> int" where
  "millis now =
     (if 0 \<le> float_mul now 1000 then \<lfloor>float_mul now 1000\<rfloor> else \<lceil>float_mul now 1000\<rceil>)"

text \<open>The \<open>try\<close> block of \<open>store_snapshot\<close> up to the INSERT.\<close>

definition snapshot_values :: "builtins \<Rightarrow> real \<Rightarrow> json \<Rightarrow> json \<Rightarrow> pyerr + snapshot_row" where
  "snapshot_values bi now token_id data =
     bindE (py_get data ''bids'' (JList [])) (\<lambda>bids.
     bindE (py_get data ''asks'' (JList [])) (\<lambda>asks.
     book_columns bi token_id (millis now) bids asks))"

text \<open>
  \<open>store_snapshot\<close>: an exception of the lines that build the row, or of the INSERT and its
  commit, is counted in \<open>errors\<close> after the rollback, and the result is \<open>False\<close>.
\<close>

definition store_snapshot :: "builtins \<Rightarrow> real \<Rightarrow> poller \<Rightarrow> json \<Rightarrow> json \<Rightarrow> poller \<times> bool" where
  "store_snapshot bi now self token_id data =
     (case snapshot_values bi now token_id data of
        Inl e \<Rightarrow> (self\<lparr>stats_errors := stats_errors self + 1\<rparr>, False)
      | Inr row \<Rightarrow>
          if executes (poller_db_accepts self) (poller_conn self) (InsertSnapshot row)
          then (self\<lparr>poller_conn := poller_conn self @ [InsertSnapshot row],
                     stats_snapshots := stats_snapshots self + 1\<rparr>, True)
          else (self\<lparr>stats_errors := stats_errors self + 1\<rparr>, False))"




section \<open>Stream collector: the reconnect delay of \<open>WebSocketCollector.run\<close>\<close>

text \<open>
  The outer loop of \<open>run\<close> keeps one local, \<open>reconnect_delay\<close>, initially 1. Every pass of
  the loop ends in one of two ways: the \<open>websockets.connect\<close> context could not be entered
  (the exception is caught by one of the two handlers), or it was entered,
  \<open>reconnect_delay = 1\<close> was executed, and the session later ended with an exception. In both
  cases, while \<open>self.running\<close> holds, the loop sleeps \<open>reconnect_delay\<close> seconds and then sets
  \<open>reconnect_delay = min(reconnect_delay * 2, 60)\<close>.
\<close>

datatype attempt = ConnectFailed | ConnectedThenClosed

text \<open>
  The sleeps of the loop, one per pass, for a given sequence of connection attempts. The
  first argument is the value of \<open>reconnect_delay\<close> at the start of the pass; a pass that
  connected has reset it to 1 before the session ended.
\<close>

fun reconnect_waits :: "nat \<Rightarrow> attempt list \<Rightarrow> nat list" where
  "reconnect_waits reconnect_delay [] = []"
| "reconnect_waits reconnect_delay (ConnectFailed # as) =
     reconnect_delay # reconnect_waits (min (reconnect_delay * 2) 60) as"
| "reconnect_waits reconnect_delay (ConnectedThenClosed # as) =
     1 # reconnect_waits (min (1 * 2) 60) as"

text \<open>\<open>run\<close> starts the loop with \<open>reconnect_delay = 1\<close>.\<close>

definition run_waits :: "attempt list \<Rightarrow> nat list" where
  "run_waits as = reconnect_waits 1 as"

section \<open>Bulk extractor\<close>

definition BATCH_SIZE :: nat where
  "BATCH_SIZE = 1000"

text \<open>
  The two GraphQL queries the script sends: the global statistics query of
  \<open>get_total_trades\<close>, and the page query of \<open>extract_trades_batch\<close> with its \<open>first\<close>
  argument and its \<open>where: { id_gt: ... }\<close> clause, if it has one. Both order and direction
  of the page query are fixed in its text: \<open>orderBy: id\<close>, \<open>orderDirection: asc\<close>.
\<close>

datatype query = GlobalStats | FilledEvents nat "string option"

text \<open>
  What one \<open>requests.post\<close> of \<open>query_subgraph\<close> comes to: an exception (of the post, of
  \<open>raise_for_status\<close> or of \<open>resp.json()\<close>), or the decoded body, a JSON object.
\<close>

datatype reply = Raises | Body "(string \<times> json) list"

text \<open>
  The endpoint answers the \<open>n\<close>-th post of the run. The run's trace: the posts made with
  their replies, and the arguments of \<open>time.sleep\<close> in seconds.
\<close>

type_synonym server = "nat \<Rightarrow> query \<Rightarrow> reply"

record world =
  posts :: "(query \<times> reply) list"
  sleeps :: "real list"

text \<open>
  \<open>query_subgraph\<close>: the loop \<open>for attempt in range(3)\<close>. An exception is followed by
  \<open>time.sleep(2 ** attempt)\<close> and the next attempt; a body with an \<open>errors\<close> key returns
  \<open>None\<close> at once; any other body returns \<open>data.get('data')\<close>. After the loop the result is
  \<open>None\<close>.
\<close>

fun query_attempts :: "server \<Rightarrow> query \<Rightarrow> nat list \<Rightarrow> world \<Rightarrow> json \<times> world" where
  "query_attempts srv q [] w = (JNull, w)"
| "query_attempts srv q (attempt # rest) w =
     (let r = srv (length (posts w)) q;
          w1 = w\<lparr>posts := posts w @ [(q, r)]\<rparr>
      in case r of
           Raises \<Rightarrow> query_attempts srv q rest (w1\<lparr>sleeps := sleeps w1 @ [2 ^ attempt]\<rparr>)
         | Body data \<Rightarrow>
             if map_of data ''errors'' \<noteq> None then (JNull, w1)
             else (case map_of data ''data'' of None \<Rightarrow> JNull | Some v \<Rightarrow> v, w1))"

definition query_subgraph :: "server \<Rightarrow> query \<Rightarrow> world \<Rightarrow> json \<times> world" where
  "query_subgraph srv q w = query_attempts srv q [0..<3] w"

text \<open>\<open>get_total_trades\<close>\<close>

definition get_total_trades :: "builtins \<Rightarrow> server \<Rightarrow> world \<Rightarrow> (pyerr + int) \<times> world" where
  "get_total_trades bi srv w =
     (case query_subgraph srv GlobalStats w of (data, w') \<Rightarrow>
        (if truthy data
         then bindE (py_get data ''ordersMatchedGlobal'' JNull) (\<lambda>g.
              if truthy g
              then bindE (py_item data ''ordersMatchedGlobal'') (\<lambda>g'.
                   bindE (py_item g' ''tradesQuantity'') (py_int bi))
              else Inr 0)
         else Inr 0, w'))"

text \<open>
  The text an f-string puts for \<open>{last_id}\<close>: a string as it is, anything else as the
  library formats it.
\<close>

definition cursor_text :: "builtins \<Rightarrow> json \<Rightarrow> string" where
  "cursor_text bi last_id = (case last_id of JStr s \<Rightarrow> s | _ \<Rightarrow> format_str bi last_id)"

text \<open>
  \<open>extract_trades_batch\<close>: the \<open>where\<close> clause is there when \<open>last_id\<close> is true, which for a
  string means not empty; a false \<open>data\<close> (in particular the \<open>None\<close> of a failed query) gives
  the empty list.
\<close>

definition extract_trades_batch :: "builtins \<Rightarrow> server \<Rightarrow> json \<Rightarrow> world \<Rightarrow> (pyerr + json) \<times> world" where
  "extract_trades_batch bi srv last_id w =
     (case query_subgraph srv
             (FilledEvents BATCH_SIZE (if truthy last_id then Some (cursor_text bi last_id) else None)) w of
        (data, w') \<Rightarrow>
          (if truthy data then py_get data ''orderFilledEvents'' (JList []) else Inr (JList []), w'))"

text \<open>
  A row of the table \<open>trades\<close>, with the columns the INSERT of \<open>insert_trades\<close> names. The
  column \<open>id\<close> holds text, which \<open>get_last_trade_id\<close> reads back as a string: a string id is
  stored as it is, any other value as the text the driver and the column make of it.
\<close>

definition id_text :: "builtins \<Rightarrow> json \<Rightarrow> string" where
  "id_text bi i = (case i of JStr s \<Rightarrow> s | _ \<Rightarrow> adapt_text bi i)"

record fill_row =
  f_id :: string
  f_tx_hash :: json
  f_timestamp :: int
  f_maker :: json
  f_taker :: json
  f_maker_asset_id :: json
  f_taker_asset_id :: json
  f_maker_amount :: int
  f_taker_amount :: int
  f_fee :: int

text \<open>
  The tuple built for one record \<open>t\<close> of the page, as the row it is stored as: \<open>t['id']\<close> and
  the four text fields go into the tuple unchecked, the four numbers through \<open>int\<close>.
\<close>

definition trade_tuple :: "builtins \<Rightarrow> json \<Rightarrow> pyerr + fill_row" where
  "trade_tuple bi t =
     bindE (py_item t ''id'') (\<lambda>i.
     bindE (py_item t ''transactionHash'') (\<lambda>tx.
     bindE (py_item t ''timestamp'') (\<lambda>ts.
     bindE (py_int bi ts) (\<lambda>timestamp.
     bindE (py_item t ''maker'') (\<lambda>mk.
     bindE (py_item t ''taker'') (\<lambda>tk.
     bindE (py_item t ''makerAssetId'') (\<lambda>ma.
     bindE (py_item t ''takerAssetId'') (\<lambda>ta.
     bindE (py_item t ''makerAmountFilled'') (\<lambda>mf.
     bindE (py_int bi mf) (\<lambda>maker_amount.
     bindE (py_item t ''takerAmountFilled'') (\<lambda>tf.
     bindE (py_int bi tf) (\<lambda>taker_amount.
     bindE (py_item t ''fee'') (\<lambda>fe.
     bindE (py_int bi fe) (\<lambda>fee.
     Inr \<lparr>f_id = id_text bi i, f_tx_hash = tx, f_timestamp = timestamp, f_maker = mk,
          f_taker = tk, f_maker_asset_id = ma, f_taker_asset_id = ta,
          f_maker_amount = maker_amount, f_taker_amount = taker_amount, f_fee = fee\<rparr>))))))))))))))"

text \<open>
  Modelled from the spec: the declaration of the table \<open>trades\<close> is not in the repository.
  The spec gives fill records the dedup key \<open>(id)\<close> under a uniqueness constraint, which is
  what the clause \<open>ON CONFLICT (id) DO NOTHING\<close> of the INSERT names: a row whose id is
  already in the table is skipped, any other row is added, in the order of the statement.
\<close>

fun insert_ignore :: "fill_row list \<Rightarrow> fill_row list \<Rightarrow> fill_row list" where
  "insert_ignore table [] = table"
| "insert_ignore table (r # rs) =
     insert_ignore (if f_id r \<in> f_id ` set table then table else table @ [r]) rs"

text \<open>
  The connection: the committed table, which is what a later run finds, the table as this
  session sees it, with the changes it has not committed yet, and the calls made on the
  connection that change either: an INSERT with its rows, or a commit.
\<close>

datatype db_call = ExecuteInsert "fill_row list" | Commit

record connection =
  durable :: "fill_row list"
  session :: "fill_row list"
  calls :: "db_call list"

definition execute_insert :: "connection \<Rightarrow> fill_row list \<Rightarrow> connection" where
  "execute_insert c rows =
     c\<lparr>session := insert_ignore (session c) rows, calls := calls c @ [ExecuteInsert rows]\<rparr>"

definition commit :: "connection \<Rightarrow> connection" where
  "commit c = c\<lparr>durable := session c, calls := calls c @ [Commit]\<rparr>"

text \<open>
  \<open>execute_values(cur, sql, values, page_size=1000)\<close> executes one INSERT for every 1000
  tuples of \<open>values\<close>, in order, and none for no tuples.
\<close>

definition chunks :: "nat \<Rightarrow> 'a list \<Rightarrow> 'a list list" where
  "chunks n xs = map (\<lambda>i. take n (drop (i * n) xs)) [0..<(length xs + n - 1) div n]"

definition execute_values :: "connection \<Rightarrow> fill_row list \<Rightarrow> connection" where
  "execute_values c rows = foldl execute_insert c (chunks 1000 rows)"

text \<open>
  \<open>insert_trades\<close>: the tuples are built for the whole page before anything is executed;
  then one \<open>execute_values\<close> and, after it, one \<open>commit\<close>. The result counts the tuples,
  not the rows added. Nothing in the repository says what could make the INSERT fail, the
  table not being declared there; it is taken to go through.
\<close>

definition insert_trades :: "builtins \<Rightarrow> connection \<Rightarrow> json \<Rightarrow> pyerr + connection \<times> nat" where
  "insert_trades bi c trades =
     (if \<not> truthy trades then Inr (c, 0)
      else bindE (py_iter trades) (\<lambda>ts.
           bindE (mapE (trade_tuple bi) ts) (\<lambda>values.
           Inr (commit (execute_values c values), length values))))"

text \<open>\<open>get_last_trade_id\<close>: \<open>SELECT MAX(id)\<close>, with \<open>result or ""\<close>.\<close>

definition get_last_trade_id :: "connection \<Rightarrow> string" where
  "get_last_trade_id c = fold max (map f_id (session c)) []"

text \<open>\<open>get_trade_count\<close>\<close>

definition get_trade_count :: "connection \<Rightarrow> nat" where
  "get_trade_count c = length (session c)"

text \<open>
  How a run of \<open>main\<close> ends: at the early return (\<open>Database is up to date!\<close>), at the final
  statistics after the loop (\<open>Extraction Complete!\<close>, with the final count and the number
  inserted by this run), or with an exception that nothing catches.
\<close>

datatype ending = UpToDate | ExtractionComplete nat nat | Uncaught pyerr

text \<open>The locals of the \<open>while True\<close> loop, with the connection and the trace.\<close>

record loop_state =
  ls_conn :: connection
  ls_world :: world
  last_id :: json
  batch_num :: nat
  total_inserted :: nat

text \<open>
  One pass of the loop body: it breaks on a false \<open>trades\<close>, and otherwise inserts the page,
  takes \<open>trades[-1]['id']\<close>, whatever it is, as the new \<open>last_id\<close> and sleeps 0.1 s. The
  progress line reads the clock and the counters and changes nothing.
\<close>

datatype step = Break loop_state | Continue loop_state | Raise pyerr loop_state

definition loop_body :: "builtins \<Rightarrow> server \<Rightarrow> loop_state \<Rightarrow> step" where
  "loop_body bi srv s =
     (let s1 = s\<lparr>batch_num := batch_num s + 1\<rparr> in
      case extract_trades_batch bi srv (last_id s1) (ls_world s1) of (r, w') \<Rightarrow>
        (let s2 = s1\<lparr>ls_world := w'\<rparr> in
         case r of
           Inl e \<Rightarrow> Raise e s2
         | Inr trades \<Rightarrow>
             if \<not> truthy trades then Break s2
             else
               (case insert_trades bi (ls_conn s2) trades of
                  Inl e \<Rightarrow> Raise e s2
                | Inr (c', inserted) \<Rightarrow>
                    (let s3 = s2\<lparr>ls_conn := c', total_inserted := total_inserted s2 + inserted\<rparr> in
                     case bindE (py_last trades) (\<lambda>t. py_item t ''id'') of
                       Inr i \<Rightarrow>
                         Continue (s3\<lparr>last_id := i,
                                      ls_world := (ls_world s3)\<lparr>sleeps := sleeps (ls_world s3) @ [1 / 10]\<rparr>\<rparr>)
                     | Inl e \<Rightarrow> Raise e s3))))"

text \<open>
  The loop. It has no bound of its own: it ends when a page comes back empty or an
  exception escapes, and \<open>None\<close> stands for a run that never ends.
\<close>

partial_function (option) extract_loop :: "builtins \<Rightarrow> server \<Rightarrow> loop_state \<Rightarrow> (ending \<times> loop_state) option" where
  "extract_loop bi srv s =
     (case loop_body bi srv s of
        Break s' \<Rightarrow> Some (ExtractionComplete (get_trade_count (ls_conn s')) (total_inserted s'), s')
      | Raise e s' \<Rightarrow> Some (Uncaught e, s')
      | Continue s' \<Rightarrow> extract_loop bi srv s')"

declare extract_loop.simps [code]

text \<open>\<open>main\<close>, from the opened connection on.\<close>

definition main :: "builtins \<Rightarrow> server \<Rightarrow> connection \<Rightarrow> world \<Rightarrow> (ending \<times> loop_state) option" where
  "main bi srv c w =
     (let db_count = get_trade_count c in
      case get_total_trades bi srv w of (r, w') \<Rightarrow>
        (let s0 = \<lparr>ls_conn = c, ls_world = w', last_id = JStr (get_last_trade_id c),
                   batch_num = 0, total_inserted = 0\<rparr> in
         case r of
           Inl e \<Rightarrow> Some (Uncaught e, s0)
         | Inr total_trades \<Rightarrow>
             if int db_count \<ge> total_trades then Some (UpToDate, s0)
             else extract_loop bi srv s0))"

text \<open>
  A stub of the history source holding the records \<open>remote\<close>: it answers the statistics
  query with their number, and the page query the way the query's text asks: the records
  with an id above the cursor, in ascending order of id, at most \<open>first\<close> of them.
\<close>

definition event_id :: "json \<Rightarrow> string" where
  "event_id t = (case py_item t ''id'' of Inr (JStr s) \<Rightarrow> s | _ \<Rightarrow> [])"

definition stub_page :: "json list \<Rightarrow> nat \<Rightarrow> string option \<Rightarrow> json list" where
  "stub_page remote n id_gt =
     take n (filter (\<lambda>t. case id_gt of None \<Rightarrow> True | Some c \<Rightarrow> c < event_id t)
               (sort_key event_id remote))"

fun stub_reply :: "json list \<Rightarrow> query \<Rightarrow> reply" where
  "stub_reply remote GlobalStats =
     Body [(''data'', JObj [(''ordersMatchedGlobal'',
                             JObj [(''tradesQuantity'', JInt (int (length remote)))])])]"
| "stub_reply remote (FilledEvents n id_gt) =
     Body [(''data'', JObj [(''orderFilledEvents'', JList (stub_page remote n id_gt))])]"


text \<open>The number of records in the reply to a page query (0 when there is none).\<close>

definition reply_size :: "reply \<Rightarrow> nat" where
  "reply_size r =
     (case r of
        Body [(k, JObj [(k', JList page)])] \<Rightarrow> length page
      | _ \<Rightarrow> 0)"

definition is_page_query :: "query \<times> reply \<Rightarrow> bool" where
  "is_page_query p = (case fst p of FilledEvents n c \<Rightarrow> True | GlobalStats \<Rightarrow> False)"

text \<open>
  What a complete backfill of the records \<open>rest\<close> is expected to look like: the pages it
  reads, \<open>BATCH_SIZE\<close> records at a time and then the empty page that ends the loop, and the
  page queries it posts with their replies, the cursor of each being the id of the last
  record of the page before.
\<close>

function expected_pages :: "'a list \<Rightarrow> 'a list list" where
  "expected_pages rest =
     (if rest = [] then [[]]
      else take BATCH_SIZE rest # expected_pages (drop BATCH_SIZE rest))"
  by pat_completeness auto
termination
  by (relation "measure length") (auto simp: BATCH_SIZE_def)

function expected_posts :: "string \<Rightarrow> json list \<Rightarrow> (query \<times> reply) list" where
  "expected_posts cursor rest =
     (FilledEvents BATCH_SIZE (if cursor \<noteq> [] then Some cursor else None),
      Body [(''data'', JObj [(''orderFilledEvents'', JList (take BATCH_SIZE rest))])])
     # (if rest = [] then []
        else expected_posts (event_id (last (take BATCH_SIZE rest))) (drop BATCH_SIZE rest))"
  by pat_completeness auto
termination
  by (relation "measure (\<lambda>(cursor, rest). length rest)") (auto simp: BATCH_SIZE_def)

declare expected_pages.simps [simp del]
declare expected_posts.simps [simp del]

text \<open>What a finished run reports, and the sizes of the pages it was sent.\<close>

definition run_ending :: "(ending \<times> loop_state) option \<Rightarrow> ending option" where
  "run_ending r = map_option fst r"

definition page_reply_sizes :: "world \<Rightarrow> nat list" where
  "page_reply_sizes w = map (\<lambda>p. reply_size (snd p)) (filter is_page_query (posts w))"


definition run_table :: "(ending \<times> loop_state) option \<Rightarrow> fill_row list option" where
  "run_table r = map_option (\<lambda>p. durable (ls_conn (snd p))) r"




section \<open>Concrete inputs\<close>

text \<open>
  A collector whose connection has executed nothing yet and refuses nothing but what the
  tables refuse, with the counters of \<open>__init__\<close>.
\<close>

definition new_collector :: collector where
  "new_collector = \<lparr>conn = [], db_accepts = (\<lambda>c s. True),
                     stats_books = 0, stats_price_changes = 0, stats_trades = 0\<rparr>"

text \<open>A \<open>book\<close> event, a \<open>last_trade_price\<close> event and a \<open>price_change\<close> event of the push feed.\<close>

definition example_book :: json where
  "example_book = JObj
     [(''event_type'', JStr ''book''), (''asset_id'', JStr ''t1''),
      (''timestamp'', JStr ''1700000000000''),
      (''bids'', JList [JObj [(''price'', JStr ''0.25''), (''size'', JStr ''100'')]]),
      (''asks'', JList [JObj [(''price'', JStr ''0.75''), (''size'', JStr ''250'')]])]"

definition example_trade :: json where
  "example_trade = JObj
     [(''event_type'', JStr ''last_trade_price''), (''asset_id'', JStr ''t1''),
      (''timestamp'', JStr ''1700000000000''), (''price'', JStr ''0.25''),
      (''size'', JStr ''100''), (''side'', JStr ''BUY''), (''fee_rate_bps'', JStr ''0'')]"

definition example_deltas :: "json list" where
  "example_deltas =
     [JObj [(''asset_id'', JStr ''t1''), (''price'', JStr ''0.25''), (''size'', JStr ''0''),
            (''side'', JStr ''BUY''), (''best_bid'', JStr ''0.25''), (''best_ask'', JStr ''0.75'')],
      JObj [(''asset_id'', JStr ''t2''), (''price'', JStr ''0.75''), (''size'', JStr ''250''),
            (''side'', JStr ''SELL'')]]"

definition example_price_change :: json where
  "example_price_change = JObj
     [(''event_type'', JStr ''price_change''), (''timestamp'', JStr ''1700000000001''),
      (''price_changes'', JList example_deltas)]"

text \<open>The rows the three example events come to.\<close>

definition example_book_row :: snapshot_row where
  "example_book_row =
     \<lparr>ob_token_id = JStr ''t1'', ob_timestamp = 1700000000000,
      ob_bids = JList [JObj [(''price'', JStr ''0.25''), (''size'', JStr ''100'')]],
      ob_asks = JList [JObj [(''price'', JStr ''0.75''), (''size'', JStr ''250'')]],
      ob_best_bid = Some (1 / 4), ob_best_ask = Some (3 / 4), ob_spread = Some (1 / 2),
      ob_bid_depth = 25, ob_ask_depth = 375 / 2\<rparr>"

definition example_trade_row :: trade_row where
  "example_trade_row =
     \<lparr>rt_token_id = JStr ''t1'', rt_timestamp = 1700000000000, rt_price = 1 / 4,
      rt_size = 100, rt_side = JStr ''BUY'', rt_fee_rate_bps = JStr ''0''\<rparr>"

definition example_change_rows :: "price_change_row list" where
  "example_change_rows =
     [\<lparr>pc_token_id = JStr ''t1'', pc_timestamp = 1700000000001, pc_price = 1 / 4,
       pc_size = 0, pc_side = JStr ''BUY'',
       pc_best_bid = Some (1 / 4), pc_best_ask = Some (3 / 4)\<rparr>,
      \<lparr>pc_token_id = JStr ''t2'', pc_timestamp = 1700000000001, pc_price = 3 / 4,
       pc_size = 250, pc_side = JStr ''SELL'', pc_best_bid = None, pc_best_ask = None\<rparr>]"


definition example_unknown_event :: json where
  "example_unknown_event = JObj
     [(''event_type'', JStr ''tick_size_change''), (''asset_id'', JStr ''t1'')]"

text \<open>An order book whose best bid is priced at zero, and the row it comes to at a timestamp.\<close>

definition example_zero_bid_book :: json where
  "example_zero_bid_book = JObj
     [(''event_type'', JStr ''book''), (''asset_id'', JStr ''t1''),
      (''timestamp'', JStr ''1700000000000''),
      (''bids'', JList [JObj [(''price'', JStr ''0.0''), (''size'', JStr ''100'')]]),
      (''asks'', JList [JObj [(''price'', JStr ''0.75''), (''size'', JStr ''250'')]])]"

definition example_zero_bid_row :: "int \<Rightarrow> snapshot_row" where
  "example_zero_bid_row ts =
     \<lparr>ob_token_id = JStr ''t1'', ob_timestamp = ts,
      ob_bids = JList [JObj [(''price'', JStr ''0.0''), (''size'', JStr ''100'')]],
      ob_asks = JList [JObj [(''price'', JStr ''0.75''), (''size'', JStr ''250'')]],
      ob_best_bid = Some 0, ob_best_ask = Some (3 / 4), ob_spread = None,
      ob_bid_depth = 0, ob_ask_depth = 375 / 2\<rparr>"

text \<open>
  A \<open>book\<close> event and a trade whose timestamp is \<open>2 ^ 63\<close>, one more than a BIGINT column
  holds, and the rows built from them.
\<close>

definition example_late_book :: json where
  "example_late_book = JObj
     [(''event_type'', JStr ''book''), (''asset_id'', JStr ''t1''),
      (''timestamp'', JStr ''9223372036854775808''),
      (''bids'', JList [JObj [(''price'', JStr ''0.25''), (''size'', JStr ''100'')]]),
      (''asks'', JList [JObj [(''price'', JStr ''0.75''), (''size'', JStr ''250'')]])]"

definition example_late_trade :: json where
  "example_late_trade = JObj
     [(''event_type'', JStr ''last_trade_price''), (''asset_id'', JStr ''t1''),
      (''timestamp'', JStr ''9223372036854775808''), (''price'', JStr ''0.25''),
      (''size'', JStr ''100''), (''side'', JStr ''BUY''), (''fee_rate_bps'', JStr ''0'')]"



text \<open>A poller whose connection has executed nothing yet, with the counters of \<open>__init__\<close>.\<close>

definition new_poller :: poller where
  "new_poller = \<lparr>poller_conn = [], poller_db_accepts = (\<lambda>c s. True),
                  stats_snapshots = 0, stats_errors = 0\<rparr>"

text \<open>
  A library stub that decodes the string literals used in the examples the way Python does,
  and nothing else. The wire text of the example message is abbreviated.
\<close>

definition example_message :: string where
  "example_message = ''[{book}, {last_trade_price}, {price_change}]''"

definition example_message_unknown :: string where
  "example_message_unknown = ''[{book}, {tick_size_change}, {last_trade_price}]''"

definition example_builtins :: builtins where
  "example_builtins =
     \<lparr>str_float = map_of [(''0'', 0), (''0.0'', 0), (''0.10'', 1 / 10), (''0.25'', 1 / 4),
                           (''0.75'', 3 / 4), (''0.90'', 9 / 10), (''100'', 100), (''250'', 250)],
      str_int = map_of [(''1700000000000'', 1700000000000), (''1700000000001'', 1700000000001),
                         (''9223372036854775808'', 9223372036854775808)],
      json_loads = map_of [(''[101, 102]'', JList [JInt 101, JInt 102]),
                            (example_message,
                             JList [example_book, example_trade, example_price_change]),
                            (example_message_unknown,
                             JList [example_book, example_unknown_event, example_trade])],
      format_str = (\<lambda>v. if v = JInt 7 then ''7'' else []),
      adapt_text = (\<lambda>v. if v = JInt 7 then ''7'' else [])\<rparr>"

text \<open>
  A record of the Market Directory with the given best bid and best ask, and the target it
  yields when it is kept.
\<close>

definition example_market :: "real \<Rightarrow> real \<Rightarrow> json" where
  "example_market bid ask = JObj
     [(''bestBid'', JFloat bid), (''bestAsk'', JFloat ask),
      (''clobTokenIds'', JStr ''[101, 102]''),
      (''slug'', JStr ''will-it-rain''), (''question'', JStr ''Will it rain?'')]"

text \<open>A record whose best bid is an integer too large for a float.\<close>

definition example_huge_bid_market :: json where
  "example_huge_bid_market = JObj
     [(''bestBid'', JInt (2 ^ 1024)), (''bestAsk'', JFloat (1 / 2)),
      (''clobTokenIds'', JStr ''[101, 102]''),
      (''slug'', JStr ''will-it-rain''), (''question'', JStr ''Will it rain?'')]"

definition example_target :: target where
  "example_target =
     \<lparr>token = JInt 101, slug = JStr ''will-it-rain'', question = JStr ''Will it rain?''\<rparr>"



text \<open>
  A record of the history source with a given id, an empty local table and an empty trace.
\<close>

definition example_event :: "string \<Rightarrow> json" where
  "example_event i = JObj
     [(''id'', JStr i), (''transactionHash'', JStr ''0xabc''), (''timestamp'', JInt 1700000000),
      (''maker'', JStr ''0x01''), (''taker'', JStr ''0x02''),
      (''makerAssetId'', JStr ''0''), (''takerAssetId'', JStr ''101''),
      (''makerAmountFilled'', JInt 450000), (''takerAmountFilled'', JInt 1000000),
      (''fee'', JInt 0)]"

definition example_fill :: "string \<Rightarrow> fill_row" where
  "example_fill i =
     \<lparr>f_id = i, f_tx_hash = JStr ''0xabc'', f_timestamp = 1700000000,
      f_maker = JStr ''0x01'', f_taker = JStr ''0x02'',
      f_maker_asset_id = JStr ''0'', f_taker_asset_id = JStr ''101'',
      f_maker_amount = 450000, f_taker_amount = 1000000, f_fee = 0\<rparr>"




definition empty_world :: world where
  "empty_world = \<lparr>posts = [], sleeps = []\<rparr>"

text \<open>
  An endpoint that answers the first post of the run from the records \<open>remote\<close> and fails
  every later one.
\<close>

definition outage_after_first :: "json list \<Rightarrow> server" where
  "outage_after_first remote = (\<lambda>n q. if n = 0 then stub_reply remote q else Raises)"

text \<open>
  A history source of \<open>n\<close> records with the ids \<open>a\<close>, \<open>aa\<close>, \<open>aaa\<close>, ... in ascending
  order, and the rows they come to.
\<close>

definition example_remote :: "nat \<Rightarrow> json list" where
  "example_remote n = map (\<lambda>i. example_event (replicate i CHR ''a'')) [1..<Suc n]"

definition example_rows :: "nat \<Rightarrow> fill_row list" where
  "example_rows n = map (\<lambda>i. example_fill (replicate i CHR ''a'')) [1..<Suc n]"

text \<open>The local table after an earlier run stored the first \<open>k\<close> of these records.\<close>

definition example_connection :: "nat \<Rightarrow> connection" where
  "example_connection k = \<lparr>durable = example_rows k, session = example_rows k, calls = []\<rparr>"

text \<open>An endpoint that answers every post with a GraphQL error.\<close>

definition errors_server :: server where
  "errors_server = (\<lambda>n q. Body [(''errors'', JList [JStr ''timeout''])])"


section \<open>Facts about floats\<close>

lemma pow2_powi: "pow2 e = 2 powi e"
  by (simp add: pow2_def power_int_def field_simps)

lemma pow2_mono: "x \<le> y \<Longrightarrow> pow2 x \<le> pow2 y"
  by (simp add: pow2_powi power_int_increasing)

lemma ulp_search_at:
  "j \<le> n \<Longrightarrow> a < pow2 (e + int j + 53) \<Longrightarrow> j = 0 \<or> pow2 (e + int j + 52) \<le> a \<Longrightarrow>
     ulp_search n e a = e + int j"
proof (induction j arbitrary: e n)
  case 0
  then show ?case by (cases n) simp_all
next
  case (Suc j)
  then obtain n' where n: "n = Suc n'" and jn: "j \<le> n'"
    by (cases n) auto
  have le: "pow2 (e + int j + 53) \<le> a"
    using Suc.prems(3) by (simp add: algebra_simps)
  have "pow2 (e + 53) \<le> pow2 (e + int j + 53)"
    by (rule pow2_mono) simp
  then have no: "\<not> a < pow2 (e + 53)"
    using le by linarith
  have "ulp_search n' (e + 1) a = (e + 1) + int j"
  proof (rule Suc.IH[OF jn])
    show "a < pow2 (e + 1 + int j + 53)"
      using Suc.prems(2) by (simp add: algebra_simps)
    show "j = 0 \<or> pow2 (e + 1 + int j + 52) \<le> a"
      using le by (simp add: algebra_simps)
  qed
  then show ?case
    using no n by simp
qed

text \<open>In the binade \<open>[2 ^ k, 2 ^ (k + 1))\<close> of the normal doubles the unit is \<open>2 ^ (k - 52)\<close>.\<close>

lemma ulp_exponent_at:
  assumes "pow2 k \<le> \<bar>r\<bar>" "\<bar>r\<bar> < pow2 (k + 1)" "- 1022 \<le> k" "k \<le> 1023"
  shows "ulp_exponent r = k - 52"
proof -
  define j where "j = nat (k + 1022)"
  have j: "int j = k + 1022" "j \<le> 2045"
    using assms(3,4) by (simp_all add: j_def)
  have "ulp_search 2045 (- 1074) \<bar>r\<bar> = - 1074 + int j"
  proof (rule ulp_search_at[OF j(2)])
    show "\<bar>r\<bar> < pow2 (- 1074 + int j + 53)"
      using assms(2) j(1) by (simp add: algebra_simps)
    show "j = 0 \<or> pow2 (- 1074 + int j + 52) \<le> \<bar>r\<bar>"
      using assms(1) j(1) by (simp add: algebra_simps)
  qed
  then show ?thesis
    using j(1) by (simp add: ulp_exponent_def)
qed

lemma round_double_at:
  assumes "pow2 k \<le> \<bar>r\<bar>" "\<bar>r\<bar> < pow2 (k + 1)" "- 1022 \<le> k" "k \<le> 1023"
  shows "round_double r = of_int (round_half_even (r / pow2 (k - 52))) * pow2 (k - 52)"
  by (simp add: round_double_def ulp_exponent_at[OF assms])

lemma round_double_0 [simp]: "round_double 0 = 0"
  by (simp add: round_double_def round_half_even_def)

text \<open>The doubles of the numbers that the examples use.\<close>

lemma double_values:
  "round_double 1 = 1"
  "round_double (1 / 4) = 1 / 4"
  "round_double (1 / 2) = 1 / 2"
  "round_double (3 / 4) = 3 / 4"
  "round_double 25 = 25"
  "round_double 100 = 100"
  "round_double (375 / 2) = 375 / 2"
  "round_double 250 = 250"
  "round_double 1700000000 = 1700000000"
  "round_double 1700000000000 = 1700000000000"
  by (subst round_double_at[of 0], simp_all add: pow2_def round_half_even_def Let_def)
     (subst round_double_at[of "- 2"], simp_all add: pow2_def round_half_even_def Let_def,
      subst round_double_at[of "- 1"], simp_all add: pow2_def round_half_even_def Let_def,
      subst round_double_at[of "- 1"], simp_all add: pow2_def round_half_even_def Let_def,
      subst round_double_at[of 4], simp_all add: pow2_def round_half_even_def Let_def,
      subst round_double_at[of 6], simp_all add: pow2_def round_half_even_def Let_def,
      subst round_double_at[of 7], simp_all add: pow2_def round_half_even_def Let_def,
      subst round_double_at[of 7], simp_all add: pow2_def round_half_even_def Let_def,
      subst round_double_at[of 30], simp_all add: pow2_def round_half_even_def Let_def,
      subst round_double_at[of 40], simp_all add: pow2_def round_half_even_def Let_def)

lemma double_tenths:
  "round_double (1 / 10) = 3602879701896397 / 2 ^ 55"
  "round_double (9 / 10) = 8106479329266893 / 2 ^ 53"
  "round_double (1 / 20) = 3602879701896397 / 2 ^ 56"
  "round_double (19 / 20) = 4278419646001971 / 2 ^ 52"
  "round_double (1 / 50) = 5764607523034235 / 2 ^ 58"
  "round_double (9 / 50) = 3242591731706757 / 2 ^ 54"
  by (subst round_double_at[of "- 4"], simp_all add: pow2_def round_half_even_def Let_def)
     (subst round_double_at[of "- 1"], simp_all add: pow2_def round_half_even_def Let_def,
      subst round_double_at[of "- 5"], simp_all add: pow2_def round_half_even_def Let_def,
      subst round_double_at[of "- 1"], simp_all add: pow2_def round_half_even_def Let_def,
      subst round_double_at[of "- 6"], simp_all add: pow2_def round_half_even_def Let_def,
      subst round_double_at[of "- 3"], simp_all add: pow2_def round_half_even_def Let_def)

section \<open>Facts about the Python layer\<close>

lemma bindE_Inr_iff: "bindE m f = Inr y \<longleftrightarrow> (\<exists>x. m = Inr x \<and> f x = Inr y)"
  by (cases m) (simp_all add: bindE_def)

lemma bindE_Inr [simp]: "bindE (Inr x) f = f x"
  by (simp add: bindE_def)

lemma bindE_Inl [simp]: "bindE (Inl e) f = Inl e"
  by (simp add: bindE_def)



section \<open>Stream collector: what the handlers store\<close>

lemma views_Nil [simp]:
  "orderbook_snapshots [] = []" "realtime_trades [] = []" "price_changes [] = []"
  by (simp_all add: orderbook_snapshots_def realtime_trades_def price_changes_def)

lemma views_Cons [simp]:
  "orderbook_snapshots (InsertSnapshot r # c) = r # orderbook_snapshots c"
  "orderbook_snapshots (InsertTrade t # c) = orderbook_snapshots c"
  "orderbook_snapshots (InsertPriceChanges rs # c) = orderbook_snapshots c"
  "realtime_trades (InsertSnapshot r # c) = realtime_trades c"
  "realtime_trades (InsertTrade t # c) = t # realtime_trades c"
  "realtime_trades (InsertPriceChanges rs # c) = realtime_trades c"
  "price_changes (InsertSnapshot r # c) = price_changes c"
  "price_changes (InsertTrade t # c) = price_changes c"
  "price_changes (InsertPriceChanges rs # c) = rs @ price_changes c"
  by (simp_all add: orderbook_snapshots_def realtime_trades_def price_changes_def)

lemma views_append [simp]:
  "orderbook_snapshots (c @ d) = orderbook_snapshots c @ orderbook_snapshots d"
  "realtime_trades (c @ d) = realtime_trades c @ realtime_trades d"
  "price_changes (c @ d) = price_changes c @ price_changes d"
  by (simp_all add: orderbook_snapshots_def realtime_trades_def price_changes_def)

lemma change_values_fields:
  "change_values bi timestamp c = Inr r \<Longrightarrow>
     py_get c ''asset_id'' JNull = Inr (pc_token_id r)
   \<and> pc_timestamp r = timestamp
   \<and> bindE (py_get c ''price'' (JInt 0)) (py_float bi) = Inr (pc_price r)
   \<and> bindE (py_get c ''size'' (JInt 0)) (py_float bi) = Inr (pc_size r)
   \<and> py_get c ''side'' JNull = Inr (pc_side r)"
  by (auto simp: change_values_def bindE_Inr_iff)

lemma change_values_timestamp_only: "change_values bi timestamp c = Inr r \<Longrightarrow> pc_timestamp r = timestamp"
  by (simp add: change_values_fields)

text \<open>The example events evaluate to the example rows.\<close>

lemmas float_ops = float_add_def float_sub_def float_mul_def float_div_def float_literal_def

lemma example_book_row_eq: "book_row example_builtins example_book = Inr example_book_row"
  by (simp add: book_row_def example_book_def example_builtins_def example_book_row_def
      book_columns_def depth_def level_value_def best_price_def float_ops double_values)

lemma example_trade_row_eq: "trade_values example_builtins example_trade = Inr example_trade_row"
  by (simp add: trade_values_def example_trade_def example_builtins_def example_trade_row_def
      double_values)

lemma example_change_rows_eq:
  "price_change_values example_builtins example_price_change = Inr example_change_rows"
  by (simp add: price_change_values_def example_price_change_def example_builtins_def
      example_change_rows_def example_deltas_def change_values_def optional_float_def
      double_values)

lemma example_late_book_row_eq:
  "book_row example_builtins example_late_book
     = Inr (example_book_row\<lparr>ob_timestamp := 9223372036854775808\<rparr>)"
  by (simp add: book_row_def example_late_book_def example_builtins_def example_book_row_def
      book_columns_def depth_def level_value_def best_price_def float_ops double_values)

lemma example_late_trade_row_eq:
  "trade_values example_builtins example_late_trade
     = Inr (example_trade_row\<lparr>rt_timestamp := 9223372036854775808\<rparr>)"
  by (simp add: trade_values_def example_late_trade_def example_builtins_def
      example_trade_row_def double_values)

lemma new_collector_executes:
  "executes (db_accepts new_collector) c s \<longleftrightarrow> timestamps_fit s"
  by (simp add: executes_def new_collector_def)

lemma example_rows_fit:
  "fits_bigint (ob_timestamp example_book_row)"
  "fits_bigint (rt_timestamp example_trade_row)"
  "list_all (\<lambda>r. fits_bigint (pc_timestamp r)) example_change_rows"
  by (simp_all add: example_book_row_def example_trade_row_def example_change_rows_def
      fits_bigint_def)


text \<open>
  Claim C1 (amended). The tables \<open>orderbook_snapshots\<close> and \<open>realtime_trades\<close> are keyed by
  their serial \<open>id\<close> alone and the INSERT statements carry no conflict clause, so every
  call of \<open>store_book_snapshot\<close> or \<open>store_trade\<close> whose row can be built and whose INSERT
  the database executes appends exactly one row, whatever the table holds: storing the same
  event twice leaves two rows with the same \<open>(token_id, timestamp)\<close>. A call whose INSERT
  the database does not execute, as it does not when the timestamp is outside the range of
  BIGINT, leaves the collector as it was.
\<close>

theorem each_store_appends_a_row:
  "(book_row bi data = Inr row
      \<and> executes (db_accepts self) (conn self) (InsertSnapshot row)
      \<and> executes (db_accepts self) (conn self @ [InsertSnapshot row]) (InsertSnapshot row) \<longrightarrow>
      orderbook_snapshots (conn (store_book_snapshot bi (store_book_snapshot bi self data) data))
        = orderbook_snapshots (conn self) @ [row, row])
 \<and> (trade_values bi tdata = Inr trow
      \<and> executes (db_accepts self) (conn self) (InsertTrade trow)
      \<and> executes (db_accepts self) (conn self @ [InsertTrade trow]) (InsertTrade trow) \<longrightarrow>
      realtime_trades (conn (store_trade bi (store_trade bi self tdata) tdata))
        = realtime_trades (conn self) @ [trow, trow])
 \<and> (book_row bi data = Inr row
      \<and> \<not> executes (db_accepts self) (conn self) (InsertSnapshot row) \<longrightarrow>
      store_book_snapshot bi self data = self)
 \<and> (trade_values bi tdata = Inr trow
      \<and> \<not> executes (db_accepts self) (conn self) (InsertTrade trow) \<longrightarrow>
      store_trade bi self tdata = self)
 \<and> (\<not> fits_bigint (ob_timestamp row) \<longrightarrow>
      \<not> executes (db_accepts self) (conn self) (InsertSnapshot row))
 \<and> (\<not> fits_bigint (rt_timestamp trow) \<longrightarrow>
      \<not> executes (db_accepts self) (conn self) (InsertTrade trow))"
  by (simp add: store_book_snapshot_def store_trade_def executes_def)

theorem each_store_appends_a_row_witness:
  "book_row example_builtins example_book = Inr example_book_row
 \<and> executes (db_accepts new_collector) (conn new_collector) (InsertSnapshot example_book_row)
 \<and> executes (db_accepts new_collector) (conn new_collector @ [InsertSnapshot example_book_row])
      (InsertSnapshot example_book_row)
 \<and> orderbook_snapshots (conn (store_book_snapshot example_builtins
        (store_book_snapshot example_builtins new_collector example_book) example_book))
      = [example_book_row, example_book_row]
 \<and> trade_values example_builtins example_trade = Inr example_trade_row
 \<and> executes (db_accepts new_collector) (conn new_collector) (InsertTrade example_trade_row)
 \<and> executes (db_accepts new_collector) (conn new_collector @ [InsertTrade example_trade_row])
      (InsertTrade example_trade_row)
 \<and> realtime_trades (conn (store_trade example_builtins
        (store_trade example_builtins new_collector example_trade) example_trade))
      = [example_trade_row, example_trade_row]
 \<and> book_row example_builtins example_late_book
      = Inr (example_book_row\<lparr>ob_timestamp := 9223372036854775808\<rparr>)
 \<and> \<not> fits_bigint 9223372036854775808
 \<and> store_book_snapshot example_builtins new_collector example_late_book = new_collector
 \<and> trade_values example_builtins example_late_trade
      = Inr (example_trade_row\<lparr>rt_timestamp := 9223372036854775808\<rparr>)
 \<and> store_trade example_builtins new_collector example_late_trade = new_collector"
proof -
  note T = each_store_appends_a_row
  have e: "executes (db_accepts new_collector) (conn new_collector) (InsertSnapshot example_book_row)"
    "executes (db_accepts new_collector) (conn new_collector @ [InsertSnapshot example_book_row])
      (InsertSnapshot example_book_row)"
    "executes (db_accepts new_collector) (conn new_collector) (InsertTrade example_trade_row)"
    "executes (db_accepts new_collector) (conn new_collector @ [InsertTrade example_trade_row])
      (InsertTrade example_trade_row)"
    by (simp_all add: new_collector_executes example_rows_fit)
  have two: "orderbook_snapshots (conn (store_book_snapshot example_builtins
        (store_book_snapshot example_builtins new_collector example_book) example_book))
      = orderbook_snapshots (conn new_collector) @ [example_book_row, example_book_row]"
    "realtime_trades (conn (store_trade example_builtins
        (store_trade example_builtins new_collector example_trade) example_trade))
      = realtime_trades (conn new_collector) @ [example_trade_row, example_trade_row]"
    using T[of example_builtins example_book example_book_row new_collector
        example_trade example_trade_row] example_book_row_eq example_trade_row_eq e
    by blast+
  have big: "\<not> fits_bigint 9223372036854775808"
    by (simp add: fits_bigint_def)
  have late: "\<not> fits_bigint (ob_timestamp (example_book_row\<lparr>ob_timestamp := 9223372036854775808\<rparr>))"
    "\<not> fits_bigint (rt_timestamp (example_trade_row\<lparr>rt_timestamp := 9223372036854775808\<rparr>))"
    using big by simp_all
  have none: "store_book_snapshot example_builtins new_collector example_late_book = new_collector"
    "store_trade example_builtins new_collector example_late_trade = new_collector"
    using T[of example_builtins example_late_book
        "example_book_row\<lparr>ob_timestamp := 9223372036854775808\<rparr>" new_collector
        example_late_trade "example_trade_row\<lparr>rt_timestamp := 9223372036854775808\<rparr>"]
      example_late_book_row_eq example_late_trade_row_eq late
    by blast+
  show ?thesis
    using example_book_row_eq example_trade_row_eq e two big none
      example_late_book_row_eq example_late_trade_row_eq
    by (simp add: new_collector_def)
qed

text \<open>
  The claim as stated fails: the same \<open>book\<close> event stored twice gives two rows of
  \<open>orderbook_snapshots\<close>, and the same trade stored twice gives two rows of
  \<open>realtime_trades\<close>.
\<close>

theorem same_key_stored_twice:
  "length (orderbook_snapshots (conn (store_book_snapshot example_builtins
        (store_book_snapshot example_builtins new_collector example_book) example_book))) = 2
 \<and> length (realtime_trades (conn (store_trade example_builtins
        (store_trade example_builtins new_collector example_trade) example_trade))) = 2"
  by (simp add: store_book_snapshot_def store_trade_def example_book_row_eq example_trade_row_eq
      new_collector_executes example_rows_fit)
     (simp add: new_collector_def)

text \<open>
  Claim C6. A message that decodes to an array is handled by dispatching its items one by
  one, left to right. For the array of a \<open>book\<close>, a \<open>last_trade_price\<close> and a
  \<open>price_change\<close> event the effect is that of \<open>store_book_snapshot\<close>, then \<open>store_trade\<close>,
  then \<open>store_price_change\<close>, each on its own event; when each of the three builds its rows
  (and the \<open>price_change\<close> event has a delta) and the database executes each INSERT, the
  connection has executed exactly three more statements, on the three tables in that order. An item that is not an event of one of the
  three kinds changes nothing, and the message is handled as if the item were not there.
\<close>

theorem dispatch_in_array_order:
  "json_loads bi message = Some (JList items) \<longrightarrow>
     handle_message bi self message = foldl (process_event bi) self items
   \<and> (items = [JObj b, JObj t, JObj p]
          \<and> map_of b ''event_type'' = Some (JStr ''book'')
          \<and> map_of t ''event_type'' = Some (JStr ''last_trade_price'')
          \<and> map_of p ''event_type'' = Some (JStr ''price_change'') \<longrightarrow>
        handle_message bi self message =
          store_price_change bi (store_trade bi (store_book_snapshot bi self (JObj b)) (JObj t)) (JObj p)
      \<and> (book_row bi (JObj b) = Inr r1 \<and> trade_values bi (JObj t) = Inr r2
            \<and> price_change_values bi (JObj p) = Inr rs \<and> rs \<noteq> []
            \<and> executes (db_accepts self) (conn self) (InsertSnapshot r1)
            \<and> executes (db_accepts self) (conn self @ [InsertSnapshot r1]) (InsertTrade r2)
            \<and> executes (db_accepts self) (conn self @ [InsertSnapshot r1, InsertTrade r2])
                  (InsertPriceChanges rs) \<longrightarrow>
          conn (handle_message bi self message) =
            conn self @ [InsertSnapshot r1, InsertTrade r2, InsertPriceChanges rs]))
   \<and> (items = pre @ e # post
          \<and> (\<forall>kvs. e = JObj kvs \<longrightarrow> map_of kvs ''event_type'' \<noteq> Some (JStr ''book'')
                \<and> map_of kvs ''event_type'' \<noteq> Some (JStr ''last_trade_price'')
                \<and> map_of kvs ''event_type'' \<noteq> Some (JStr ''price_change'')) \<longrightarrow>
        process_event bi self e = self
      \<and> handle_message bi self message = foldl (process_event bi) self (pre @ post))"
proof (intro impI conjI)
  assume m: "json_loads bi message = Some (JList items)"
  then show hm: "handle_message bi self message = foldl (process_event bi) self items"
    by (simp add: handle_message_def)
  {
    assume h: "items = [JObj b, JObj t, JObj p]
          \<and> map_of b ''event_type'' = Some (JStr ''book'')
          \<and> map_of t ''event_type'' = Some (JStr ''last_trade_price'')
          \<and> map_of p ''event_type'' = Some (JStr ''price_change'')"
    then show eq: "handle_message bi self message =
          store_price_change bi (store_trade bi (store_book_snapshot bi self (JObj b)) (JObj t)) (JObj p)"
      using hm by (simp add: process_event_def)
    assume "book_row bi (JObj b) = Inr r1 \<and> trade_values bi (JObj t) = Inr r2
            \<and> price_change_values bi (JObj p) = Inr rs \<and> rs \<noteq> []
            \<and> executes (db_accepts self) (conn self) (InsertSnapshot r1)
            \<and> executes (db_accepts self) (conn self @ [InsertSnapshot r1]) (InsertTrade r2)
            \<and> executes (db_accepts self) (conn self @ [InsertSnapshot r1, InsertTrade r2])
                  (InsertPriceChanges rs)"
    then show "conn (handle_message bi self message) =
            conn self @ [InsertSnapshot r1, InsertTrade r2, InsertPriceChanges rs]"
      unfolding eq by (simp add: store_price_change_def store_trade_def store_book_snapshot_def)
  }
  {
    assume h: "items = pre @ e # post
          \<and> (\<forall>kvs. e = JObj kvs \<longrightarrow> map_of kvs ''event_type'' \<noteq> Some (JStr ''book'')
                \<and> map_of kvs ''event_type'' \<noteq> Some (JStr ''last_trade_price'')
                \<and> map_of kvs ''event_type'' \<noteq> Some (JStr ''price_change''))"
    have dropped: "process_event bi s e = s" for s
      using h by (cases e) (auto simp: process_event_def Let_def split: option.splits)
    show "process_event bi self e = self"
      by (rule dropped)
    show "handle_message bi self message = foldl (process_event bi) self (pre @ post)"
      using h hm dropped by simp
  }
qed

theorem dispatch_in_array_order_witness:
  "json_loads example_builtins example_message
      = Some (JList [example_book, example_trade, example_price_change])
 \<and> conn (handle_message example_builtins new_collector example_message)
      = [InsertSnapshot example_book_row, InsertTrade example_trade_row,
         InsertPriceChanges example_change_rows]
 \<and> json_loads example_builtins example_message_unknown
      = Some (JList ([example_book] @ example_unknown_event # [example_trade]))
 \<and> process_event example_builtins new_collector example_unknown_event = new_collector
 \<and> conn (handle_message example_builtins new_collector example_message_unknown)
      = [InsertSnapshot example_book_row, InsertTrade example_trade_row]"
proof -
  obtain b where b: "example_book = JObj b" and bt: "map_of b ''event_type'' = Some (JStr ''book'')"
    by (simp add: example_book_def)
  obtain t where t: "example_trade = JObj t"
    and tt: "map_of t ''event_type'' = Some (JStr ''last_trade_price'')"
    by (simp add: example_trade_def)
  obtain p where p: "example_price_change = JObj p"
    and pt: "map_of p ''event_type'' = Some (JStr ''price_change'')"
    by (simp add: example_price_change_def)
  have m1: "json_loads example_builtins example_message
      = Some (JList [example_book, example_trade, example_price_change])"
    by (simp add: example_builtins_def example_message_def example_message_unknown_def)
  have m2: "json_loads example_builtins example_message_unknown
      = Some (JList ([example_book] @ example_unknown_event # [example_trade]))"
    by (simp add: example_builtins_def example_message_def example_message_unknown_def)
  have ne: "example_change_rows \<noteq> []"
    by (simp add: example_change_rows_def)
  have ex: "executes (db_accepts new_collector) (conn new_collector) (InsertSnapshot example_book_row)"
    "executes (db_accepts new_collector) (conn new_collector @ [InsertSnapshot example_book_row])
      (InsertTrade example_trade_row)"
    "executes (db_accepts new_collector)
      (conn new_collector @ [InsertSnapshot example_book_row, InsertTrade example_trade_row])
      (InsertPriceChanges example_change_rows)"
    by (simp_all add: new_collector_executes example_rows_fit)
  have three: "conn (handle_message example_builtins new_collector example_message)
      = conn new_collector @ [InsertSnapshot example_book_row, InsertTrade example_trade_row,
         InsertPriceChanges example_change_rows]"
    using dispatch_in_array_order[of example_builtins example_message
        "[example_book, example_trade, example_price_change]" new_collector b t p
        example_book_row example_trade_row example_change_rows]
      m1 example_book_row_eq example_trade_row_eq example_change_rows_eq ne bt tt pt ex
    unfolding b t p by blast
  have u: "\<forall>kvs. example_unknown_event = JObj kvs \<longrightarrow>
        map_of kvs ''event_type'' \<noteq> Some (JStr ''book'')
      \<and> map_of kvs ''event_type'' \<noteq> Some (JStr ''last_trade_price'')
      \<and> map_of kvs ''event_type'' \<noteq> Some (JStr ''price_change'')"
    by (auto simp: example_unknown_event_def)
  have unknown: "process_event example_builtins new_collector example_unknown_event = new_collector
    \<and> handle_message example_builtins new_collector example_message_unknown
        = foldl (process_event example_builtins) new_collector ([example_book] @ [example_trade])"
    using dispatch_in_array_order[of example_builtins example_message_unknown
        "[example_book] @ example_unknown_event # [example_trade]" new_collector _ _ _ _ _ _
        "[example_book]" example_unknown_event "[example_trade]"] m2 u
    by blast
  have two: "conn (foldl (process_event example_builtins) new_collector ([example_book] @ [example_trade]))
      = [InsertSnapshot example_book_row, InsertTrade example_trade_row]"
    using example_book_row_eq example_trade_row_eq bt tt unfolding b t
    by (simp add: process_event_def store_book_snapshot_def store_trade_def
        new_collector_executes example_rows_fit)
       (simp add: new_collector_def)
  show ?thesis
    using m1 m2 three unknown two by (simp add: new_collector_def)
qed




section \<open>Order-book rows: best prices and spread\<close>

lemma best_price_None_iff: "best_price bi levels = Inr r \<Longrightarrow> (r = None \<longleftrightarrow> \<not> truthy levels)"
  by (auto simp: best_price_def bindE_Inr_iff split: if_splits)

lemma depth_falsy_iter:
  "depth bi levels = Inr d \<Longrightarrow> (\<not> truthy levels \<longleftrightarrow> py_iter levels = Inr [])"
  by (cases levels) (auto simp: depth_def bindE_Inr_iff)

lemma spread_of_zero: "b = Some 0 \<or> a = Some 0 \<Longrightarrow> spread_of b a = None"
  by (cases b; cases a) auto

lemma book_columns_props:
  assumes "book_columns bi tok ts bids asks = Inr row"
  shows "best_price bi bids = Inr (ob_best_bid row)"
    and "best_price bi asks = Inr (ob_best_ask row)"
    and "ob_spread row = spread_of (ob_best_bid row) (ob_best_ask row)"
    and "ob_best_bid row = None \<longleftrightarrow> py_iter bids = Inr []"
    and "ob_best_ask row = None \<longleftrightarrow> py_iter asks = Inr []"
proof -
  from assms obtain bd ad bb ba where
    bd: "depth bi bids = Inr bd" and ad: "depth bi asks = Inr ad" and
    bb: "best_price bi bids = Inr bb" and ba: "best_price bi asks = Inr ba" and
    row: "row = \<lparr>ob_token_id = tok, ob_timestamp = ts, ob_bids = bids, ob_asks = asks,
          ob_best_bid = bb, ob_best_ask = ba, ob_spread = spread_of bb ba,
          ob_bid_depth = bd, ob_ask_depth = ad\<rparr>"
    by (auto simp: book_columns_def bindE_Inr_iff)
  show "best_price bi bids = Inr (ob_best_bid row)"
    using bb row by simp
  show "best_price bi asks = Inr (ob_best_ask row)"
    using ba row by simp
  show "ob_spread row = spread_of (ob_best_bid row) (ob_best_ask row)"
    using row by simp
  show "ob_best_bid row = None \<longleftrightarrow> py_iter bids = Inr []"
    using best_price_None_iff[OF bb] depth_falsy_iter[OF bd] row by simp
  show "ob_best_ask row = None \<longleftrightarrow> py_iter asks = Inr []"
    using best_price_None_iff[OF ba] depth_falsy_iter[OF ad] row by simp
qed

text \<open>
  Claim C9. Whenever \<open>store_book_snapshot\<close> (stream collector) or \<open>store_snapshot\<close> (poller)
  builds a row, that row is what it stores when the database executes the INSERT, and in
  it: the stored \<open>best_bid\<close> is \<open>None\<close> exactly when the payload's list
  of bid levels is empty and is otherwise the parsed price of its first level, likewise for
  \<open>best_ask\<close>; the stored spread is \<open>best_ask - best_bid\<close> only when both are present and
  non-zero; so a best bid or best ask that parses to 0.0 gives a stored spread of \<open>None\<close>.
\<close>

theorem spread_none_on_zero_best:
  "(book_row bi data = Inr row \<longrightarrow>
      (executes (db_accepts self) (conn self) (InsertSnapshot row) \<longrightarrow>
         conn (store_book_snapshot bi self data) = conn self @ [InsertSnapshot row])
    \<and> (py_get data ''bids'' (JList []) = Inr bids \<longrightarrow>
          (ob_best_bid row = None \<longleftrightarrow> py_iter bids = Inr [])
        \<and> best_price bi bids = Inr (ob_best_bid row))
    \<and> (py_get data ''asks'' (JList []) = Inr asks \<longrightarrow>
          (ob_best_ask row = None \<longleftrightarrow> py_iter asks = Inr [])
        \<and> best_price bi asks = Inr (ob_best_ask row))
    \<and> (ob_best_bid row = Some 0 \<or> ob_best_ask row = Some 0 \<longrightarrow> ob_spread row = None)
    \<and> ob_spread row = spread_of (ob_best_bid row) (ob_best_ask row))
 \<and> (snapshot_values bi now token_id pdata = Inr prow \<longrightarrow>
      (executes (poller_db_accepts pself) (poller_conn pself) (InsertSnapshot prow) \<longrightarrow>
         poller_conn (fst (store_snapshot bi now pself token_id pdata))
           = poller_conn pself @ [InsertSnapshot prow])
    \<and> (py_get pdata ''bids'' (JList []) = Inr pbids \<longrightarrow>
          (ob_best_bid prow = None \<longleftrightarrow> py_iter pbids = Inr [])
        \<and> best_price bi pbids = Inr (ob_best_bid prow))
    \<and> (py_get pdata ''asks'' (JList []) = Inr pasks \<longrightarrow>
          (ob_best_ask prow = None \<longleftrightarrow> py_iter pasks = Inr [])
        \<and> best_price bi pasks = Inr (ob_best_ask prow))
    \<and> (ob_best_bid prow = Some 0 \<or> ob_best_ask prow = Some 0 \<longrightarrow> ob_spread prow = None)
    \<and> ob_spread prow = spread_of (ob_best_bid prow) (ob_best_ask prow))"
proof (intro conjI impI)
  assume r: "book_row bi data = Inr row"
  then obtain tok ts bs as where
    b: "py_get data ''bids'' (JList []) = Inr bs" and a: "py_get data ''asks'' (JList []) = Inr as"
    and c: "book_columns bi tok ts bs as = Inr row"
    by (auto simp: book_row_def bindE_Inr_iff)
  note p = book_columns_props[OF c]
  {
    assume "executes (db_accepts self) (conn self) (InsertSnapshot row)"
    then show "conn (store_book_snapshot bi self data) = conn self @ [InsertSnapshot row]"
      using r by (simp add: store_book_snapshot_def)
  }
  show "ob_spread row = spread_of (ob_best_bid row) (ob_best_ask row)"
    by (rule p(3))
  {
    assume "py_get data ''bids'' (JList []) = Inr bids"
    then have "bids = bs" using b by simp
    then show "ob_best_bid row = None \<longleftrightarrow> py_iter bids = Inr []"
      and "best_price bi bids = Inr (ob_best_bid row)"
      using p(1,4) by simp_all
  }
  {
    assume "py_get data ''asks'' (JList []) = Inr asks"
    then have "asks = as" using a by simp
    then show "ob_best_ask row = None \<longleftrightarrow> py_iter asks = Inr []"
      and "best_price bi asks = Inr (ob_best_ask row)"
      using p(2,5) by simp_all
  }
  assume "ob_best_bid row = Some 0 \<or> ob_best_ask row = Some 0"
  then show "ob_spread row = None"
    using p(3) spread_of_zero by simp
next
  assume r: "snapshot_values bi now token_id pdata = Inr prow"
  then obtain bs as where
    b: "py_get pdata ''bids'' (JList []) = Inr bs" and a: "py_get pdata ''asks'' (JList []) = Inr as"
    and c: "book_columns bi token_id (millis now) bs as = Inr prow"
    by (auto simp: snapshot_values_def bindE_Inr_iff)
  note p = book_columns_props[OF c]
  {
    assume "executes (poller_db_accepts pself) (poller_conn pself) (InsertSnapshot prow)"
    then show "poller_conn (fst (store_snapshot bi now pself token_id pdata))
      = poller_conn pself @ [InsertSnapshot prow]"
      using r by (simp add: store_snapshot_def)
  }
  show "ob_spread prow = spread_of (ob_best_bid prow) (ob_best_ask prow)"
    by (rule p(3))
  {
    assume "py_get pdata ''bids'' (JList []) = Inr pbids"
    then have "pbids = bs" using b by simp
    then show "ob_best_bid prow = None \<longleftrightarrow> py_iter pbids = Inr []"
      and "best_price bi pbids = Inr (ob_best_bid prow)"
      using p(1,4) by simp_all
  }
  {
    assume "py_get pdata ''asks'' (JList []) = Inr pasks"
    then have "pasks = as" using a by simp
    then show "ob_best_ask prow = None \<longleftrightarrow> py_iter pasks = Inr []"
      and "best_price bi pasks = Inr (ob_best_ask prow)"
      using p(2,5) by simp_all
  }
  assume "ob_best_bid prow = Some 0 \<or> ob_best_ask prow = Some 0"
  then show "ob_spread prow = None"
    using p(3) spread_of_zero by simp
qed

lemma example_zero_bid_row_eq:
  "book_row example_builtins example_zero_bid_book = Inr (example_zero_bid_row 1700000000000)"
  by (simp add: book_row_def example_zero_bid_book_def example_builtins_def
      example_zero_bid_row_def book_columns_def depth_def level_value_def best_price_def
      float_ops double_values)

lemma example_millis: "millis 1700000000 = 1700000000000"
  by (simp add: millis_def float_ops double_values)

lemma example_zero_bid_poll_eq:
  "snapshot_values example_builtins 1700000000 (JStr ''t1'') example_zero_bid_book
     = Inr (example_zero_bid_row 1700000000000)"
  by (simp add: snapshot_values_def example_zero_bid_book_def example_builtins_def
      example_zero_bid_row_def book_columns_def depth_def level_value_def best_price_def
      example_millis float_ops double_values)

lemma new_poller_executes:
  "executes (poller_db_accepts new_poller) c s \<longleftrightarrow> timestamps_fit s"
  by (simp add: executes_def new_poller_def)

theorem spread_none_on_zero_best_witness:
  "book_row example_builtins example_zero_bid_book = Inr (example_zero_bid_row 1700000000000)
 \<and> executes (db_accepts new_collector) (conn new_collector)
      (InsertSnapshot (example_zero_bid_row 1700000000000))
 \<and> conn (store_book_snapshot example_builtins new_collector example_zero_bid_book)
      = [InsertSnapshot (example_zero_bid_row 1700000000000)]
 \<and> snapshot_values example_builtins 1700000000 (JStr ''t1'') example_zero_bid_book
      = Inr (example_zero_bid_row 1700000000000)
 \<and> executes (poller_db_accepts new_poller) (poller_conn new_poller)
      (InsertSnapshot (example_zero_bid_row 1700000000000))
 \<and> poller_conn (fst (store_snapshot example_builtins 1700000000 new_poller
        (JStr ''t1'') example_zero_bid_book))
      = [InsertSnapshot (example_zero_bid_row 1700000000000)]
 \<and> ob_best_bid (example_zero_bid_row 1700000000000) = Some 0
 \<and> ob_best_ask (example_zero_bid_row 1700000000000) = Some (3 / 4)
 \<and> ob_spread (example_zero_bid_row 1700000000000) = None"
proof -
  have z: "ob_best_bid (example_zero_bid_row 1700000000000) = Some 0"
    and a: "ob_best_ask (example_zero_bid_row 1700000000000) = Some (3 / 4)"
    by (simp_all add: example_zero_bid_row_def)
  have x: "executes (db_accepts new_collector) (conn new_collector)
      (InsertSnapshot (example_zero_bid_row 1700000000000))"
    "executes (poller_db_accepts new_poller) (poller_conn new_poller)
      (InsertSnapshot (example_zero_bid_row 1700000000000))"
    by (simp_all add: new_collector_executes new_poller_executes example_zero_bid_row_def
        fits_bigint_def)
  from spread_none_on_zero_best[of example_builtins example_zero_bid_book
      "example_zero_bid_row 1700000000000" new_collector _ _ 1700000000
      "JStr ''t1''" example_zero_bid_book "example_zero_bid_row 1700000000000" new_poller]
    example_zero_bid_row_eq example_zero_bid_poll_eq x z
  have "conn (store_book_snapshot example_builtins new_collector example_zero_bid_book)
      = conn new_collector @ [InsertSnapshot (example_zero_bid_row 1700000000000)]"
    "poller_conn (fst (store_snapshot example_builtins 1700000000 new_poller
        (JStr ''t1'') example_zero_bid_book))
      = poller_conn new_poller @ [InsertSnapshot (example_zero_bid_row 1700000000000)]"
    "ob_spread (example_zero_bid_row 1700000000000) = None"
    by blast+
  then show ?thesis
    using example_zero_bid_row_eq example_zero_bid_poll_eq x z a
    by (simp add: new_collector_def new_poller_def)
qed

section \<open>Snapshot poller: target selection\<close>

lemma loop_skip_filter:
  "top_markets_loop bi limit tokens ms
     = top_markets_loop bi limit tokens (filter (\<lambda>m. \<not> skip_extreme bi m) ms)"
proof (induction ms arbitrary: tokens)
  case Nil
  then show ?case by simp
next
  case (Cons m ms)
  have stop: "length tokens \<ge> limit \<Longrightarrow> top_markets_loop bi limit tokens xs = Inr tokens" for xs
    by (cases xs) simp_all
  show ?case
  proof (cases "skip_extreme bi m")
    case True
    then show ?thesis using Cons.IH[of tokens] stop[of ms] stop[of "filter (\<lambda>m. \<not> skip_extreme bi m) ms"]
      by (cases "length tokens \<ge> limit") simp_all
  next
    case False
    then show ?thesis using Cons.IH
      by (auto split: sum.splits option.splits)
  qed
qed

lemma get_top_markets_filter:
  "get_top_markets bi limit (Inr (JList ms))
     = get_top_markets bi limit (Inr (JList (filter (\<lambda>m. \<not> skip_extreme bi m) ms)))"
  using loop_skip_filter[of bi limit "[]" ms] by (simp add: get_top_markets_def)

lemma single_skipped: "skip_extreme bi m \<Longrightarrow> get_top_markets bi limit (Inr (JList [m])) = []"
  by (simp add: get_top_markets_def)

lemma rd_eval:
  assumes "pow2 k \<le> \<bar>r\<bar>" "\<bar>r\<bar> < pow2 (k + 1)" "- 1022 \<le> k" "k \<le> 1023"
    and "of_int (round_half_even (r / pow2 (k - 52))) * pow2 (k - 52) = v"
  shows "round_double r = v"
  using round_double_at[OF assms(1-4)] assms(5) by simp

lemmas rd_simps = pow2_def round_half_even_def Let_def

text \<open>The two bounds, as doubles: a little above \<open>1/10\<close> and a little above \<open>9/10\<close>.\<close>

lemma bounds_values:
  "LOWER_BOUND = 3602879701896397 / 2 ^ 55"
  "UPPER_BOUND = 8106479329266893 / 2 ^ 53"
  by (simp_all add: LOWER_BOUND_def UPPER_BOUND_def float_literal_def double_tenths)

lemma mean_values:
  "float_div (float_add (1 / 2) (1 / 2)) 2 = 1 / 2"
  "float_div (float_add 0 1) 2 = 1 / 2"
  "float_div (float_add (round_double (1 / 10)) (round_double (1 / 10))) 2 = 3602879701896397 / 2 ^ 55"
  "float_div (float_add (round_double (9 / 10)) (round_double (9 / 10))) 2 = 8106479329266893 / 2 ^ 53"
  "float_div (float_add (round_double (1 / 20)) (round_double (1 / 20))) 2 = 3602879701896397 / 2 ^ 56"
  "float_div (float_add (round_double (19 / 20)) (round_double (19 / 20))) 2 = 4278419646001971 / 2 ^ 52"
  "float_div (float_add (round_double (1 / 50)) (round_double (9 / 50))) 2 = 7205759403792793 / 2 ^ 56"
proof -
  show "float_div (float_add (1 / 2) (1 / 2)) 2 = 1 / 2"
    by (simp add: float_ops double_values)
  show "float_div (float_add 0 1) 2 = 1 / 2"
    by (simp add: float_ops double_values)
  have a: "float_add (3602879701896397 / 2 ^ 55) (3602879701896397 / 2 ^ 55) = 3602879701896397 / 2 ^ 54"
    unfolding float_add_def by (rule rd_eval[of "- 3"]) (simp_all add: rd_simps)
  have a': "float_div (3602879701896397 / 2 ^ 54) 2 = 3602879701896397 / 2 ^ 55"
    unfolding float_div_def by (rule rd_eval[of "- 4"]) (simp_all add: rd_simps)
  show "float_div (float_add (round_double (1 / 10)) (round_double (1 / 10))) 2 = 3602879701896397 / 2 ^ 55"
    unfolding double_tenths a a' ..
  have b: "float_add (8106479329266893 / 2 ^ 53) (8106479329266893 / 2 ^ 53) = 8106479329266893 / 2 ^ 52"
    unfolding float_add_def by (rule rd_eval[of 0]) (simp_all add: rd_simps)
  have b': "float_div (8106479329266893 / 2 ^ 52) 2 = 8106479329266893 / 2 ^ 53"
    unfolding float_div_def by (rule rd_eval[of "- 1"]) (simp_all add: rd_simps)
  show "float_div (float_add (round_double (9 / 10)) (round_double (9 / 10))) 2 = 8106479329266893 / 2 ^ 53"
    unfolding double_tenths b b' ..
  have c: "float_add (3602879701896397 / 2 ^ 56) (3602879701896397 / 2 ^ 56) = 3602879701896397 / 2 ^ 55"
    unfolding float_add_def by (rule rd_eval[of "- 4"]) (simp_all add: rd_simps)
  have c': "float_div (3602879701896397 / 2 ^ 55) 2 = 3602879701896397 / 2 ^ 56"
    unfolding float_div_def by (rule rd_eval[of "- 5"]) (simp_all add: rd_simps)
  show "float_div (float_add (round_double (1 / 20)) (round_double (1 / 20))) 2 = 3602879701896397 / 2 ^ 56"
    unfolding double_tenths c c' ..
  have d: "float_add (4278419646001971 / 2 ^ 52) (4278419646001971 / 2 ^ 52) = 4278419646001971 / 2 ^ 51"
    unfolding float_add_def by (rule rd_eval[of 0]) (simp_all add: rd_simps)
  have d': "float_div (4278419646001971 / 2 ^ 51) 2 = 4278419646001971 / 2 ^ 52"
    unfolding float_div_def by (rule rd_eval[of "- 1"]) (simp_all add: rd_simps)
  show "float_div (float_add (round_double (19 / 20)) (round_double (19 / 20))) 2 = 4278419646001971 / 2 ^ 52"
    unfolding double_tenths d d' ..
  have e: "float_add (5764607523034235 / 2 ^ 58) (3242591731706757 / 2 ^ 54) = 7205759403792793 / 2 ^ 55"
    unfolding float_add_def by (rule rd_eval[of "- 3"]) (simp_all add: rd_simps)
  have e': "float_div (7205759403792793 / 2 ^ 55) 2 = 7205759403792793 / 2 ^ 56"
    unfolding float_div_def by (rule rd_eval[of "- 4"]) (simp_all add: rd_simps)
  show "float_div (float_add (round_double (1 / 50)) (round_double (9 / 50))) 2 = 7205759403792793 / 2 ^ 56"
    unfolding double_tenths e e' ..
qed

lemma example_market_mid:
  "mid_price example_builtins (example_market bid ask)
     = Inr (float_div (float_add (if round_double bid = 0 then 0 else round_double bid)
                                 (if round_double ask = 0 then 1 else round_double ask)) 2)"
  by (simp add: mid_price_def best_bid_of_def best_ask_of_def example_market_def py_or_def
      double_values)

lemma example_mids:
  "mid_price example_builtins (example_market (1 / 2) (1 / 2)) = Inr (1 / 2)"
  "mid_price example_builtins (example_market 0 0) = Inr (1 / 2)"
  "mid_price example_builtins (example_market (1 / 10) (1 / 10)) = Inr LOWER_BOUND"
  "mid_price example_builtins (example_market (9 / 10) (9 / 10)) = Inr UPPER_BOUND"
  "mid_price example_builtins (example_market (1 / 20) (1 / 20)) = Inr (3602879701896397 / 2 ^ 56)"
  "mid_price example_builtins (example_market (19 / 20) (19 / 20)) = Inr (4278419646001971 / 2 ^ 52)"
  "mid_price example_builtins (example_market (1 / 50) (9 / 50)) = Inr (7205759403792793 / 2 ^ 56)"
proof -
  have nz: "round_double (1 / 2) \<noteq> 0" "round_double (1 / 10) \<noteq> 0" "round_double (9 / 10) \<noteq> 0"
    "round_double (1 / 20) \<noteq> 0" "round_double (19 / 20) \<noteq> 0" "round_double (1 / 50) \<noteq> 0"
    "round_double (9 / 50) \<noteq> 0"
    by (simp_all add: double_values double_tenths)
  have h: "round_double (1 / 2) = 1 / 2"
    by (rule double_values)
  show "mid_price example_builtins (example_market (1 / 2) (1 / 2)) = Inr (1 / 2)"
    using nz(1) by (simp only: example_market_mid if_False h mean_values)
  show "mid_price example_builtins (example_market 0 0) = Inr (1 / 2)"
    by (simp add: example_market_mid mean_values)
  show "mid_price example_builtins (example_market (1 / 10) (1 / 10)) = Inr LOWER_BOUND"
    using nz(2) by (simp only: example_market_mid if_False mean_values bounds_values)
  show "mid_price example_builtins (example_market (9 / 10) (9 / 10)) = Inr UPPER_BOUND"
    using nz(3) by (simp only: example_market_mid if_False mean_values bounds_values)
  show "mid_price example_builtins (example_market (1 / 20) (1 / 20)) = Inr (3602879701896397 / 2 ^ 56)"
    using nz(4) by (simp only: example_market_mid if_False mean_values)
  show "mid_price example_builtins (example_market (19 / 20) (19 / 20)) = Inr (4278419646001971 / 2 ^ 52)"
    using nz(5) by (simp only: example_market_mid if_False mean_values)
  show "mid_price example_builtins (example_market (1 / 50) (9 / 50)) = Inr (7205759403792793 / 2 ^ 56)"
    using nz(6,7) by (simp only: example_market_mid if_False mean_values)
qed

lemma example_market_target:
  "py_get (example_market bid ask) ''clobTokenIds'' JNull = Inr (JStr ''[101, 102]'')
 \<and> new_target example_builtins (example_market bid ask) (JStr ''[101, 102]'')
      = Inr (Some example_target)"
  by (simp add: new_target_def example_market_def example_builtins_def example_target_def)

lemma example_market_kept:
  assumes "mid_price example_builtins (example_market bid ask) = Inr p"
  shows "get_top_markets example_builtins 100 (Inr (JList [example_market bid ask]))
     = (if LOWER_BOUND \<le> p \<and> p \<le> UPPER_BOUND then [example_target] else [])"
  using assms example_market_target[of bid ask]
  by (auto simp: get_top_markets_def skip_extreme_def)

text \<open>
  Claim C4 (amended). The mid price of a record is what the code computes: the float mean
  \<open>(best_bid + best_ask) / 2\<close> of the record's \<open>bestBid\<close>, taken as 0 when it is missing or
  false, and its \<open>bestAsk\<close>, taken as 1 when it is missing or false. Records whose mid
  price is below 0.10 or above 0.90 never affect the selection: the result is the same with
  them removed. A record with mid price \<open>p\<close> is skipped exactly when \<open>p < 0.10\<close> or \<open>p > 0.90\<close>
  in floats, so it can be kept only if \<open>0.10 \<le> p \<le> 0.90\<close>, both bounds included; and when
  its token list decodes and the limit is positive it is kept exactly when
  \<open>0.10 \<le> p \<le> 0.90\<close>. So 0.05 and 0.95 are excluded and 0.50, 0.10 and 0.90 are included. A
  record whose price fields do not convert to floats is not skipped.
\<close>

theorem mid_price_bounds_inclusive:
  "get_top_markets bi limit (Inr (JList ms))
     = get_top_markets bi limit (Inr (JList (filter (\<lambda>m. \<not> skip_extreme bi m) ms)))
 \<and> (mid_price bi m = Inr p \<longrightarrow>
      (\<exists>best_bid best_ask. best_bid_of bi m = Inr best_bid \<and> best_ask_of bi m = Inr best_ask
          \<and> p = float_div (float_add best_bid best_ask) 2)
    \<and> (skip_extreme bi m \<longleftrightarrow> p < LOWER_BOUND \<or> UPPER_BOUND < p)
    \<and> (get_top_markets bi limit (Inr (JList [m])) \<noteq> [] \<longrightarrow> LOWER_BOUND \<le> p \<and> p \<le> UPPER_BOUND)
    \<and> (0 < limit \<and> py_get m ''clobTokenIds'' JNull = Inr token_ids \<and> truthy token_ids
          \<and> new_target bi m token_ids = Inr (Some tg) \<longrightarrow>
        get_top_markets bi limit (Inr (JList [m]))
          = (if LOWER_BOUND \<le> p \<and> p \<le> UPPER_BOUND then [tg] else [])))
 \<and> (mid_price bi m = Inl e \<longrightarrow> \<not> skip_extreme bi m)
 \<and> (py_get m ''bestBid'' (JInt 0) = Inr b \<and> \<not> truthy b \<longrightarrow> best_bid_of bi m = Inr 0)
 \<and> (py_get m ''bestAsk'' (JInt 1) = Inr a \<and> \<not> truthy a \<longrightarrow> best_ask_of bi m = Inr 1)
 \<and> (py_get m ''bestBid'' (JInt 0) = Inr b \<and> truthy b \<longrightarrow> best_bid_of bi m = py_float bi b)
 \<and> (py_get m ''bestAsk'' (JInt 1) = Inr a \<and> truthy a \<longrightarrow> best_ask_of bi m = py_float bi a)
 \<and> LOWER_BOUND = 3602879701896397 / 2 ^ 55
 \<and> UPPER_BOUND = 8106479329266893 / 2 ^ 53"
proof (intro conjI impI)
  show "get_top_markets bi limit (Inr (JList ms))
     = get_top_markets bi limit (Inr (JList (filter (\<lambda>m. \<not> skip_extreme bi m) ms)))"
    by (rule get_top_markets_filter)
next
  assume p: "mid_price bi m = Inr p"
  then show "\<exists>best_bid best_ask. best_bid_of bi m = Inr best_bid \<and> best_ask_of bi m = Inr best_ask
          \<and> p = float_div (float_add best_bid best_ask) 2"
    by (auto simp: mid_price_def bindE_Inr_iff)
  show sk: "skip_extreme bi m \<longleftrightarrow> p < LOWER_BOUND \<or> UPPER_BOUND < p"
    using p by (simp add: skip_extreme_def)
  {
    assume "get_top_markets bi limit (Inr (JList [m])) \<noteq> []"
    then have "\<not> skip_extreme bi m" using single_skipped by blast
    then show "LOWER_BOUND \<le> p" and "p \<le> UPPER_BOUND" using sk by auto
  }
  assume "0 < limit \<and> py_get m ''clobTokenIds'' JNull = Inr token_ids \<and> truthy token_ids
          \<and> new_target bi m token_ids = Inr (Some tg)"
  then show "get_top_markets bi limit (Inr (JList [m]))
          = (if LOWER_BOUND \<le> p \<and> p \<le> UPPER_BOUND then [tg] else [])"
    using sk by (auto simp: get_top_markets_def)
next
  assume "mid_price bi m = Inl e"
  then show "\<not> skip_extreme bi m"
    by (simp add: skip_extreme_def)
next
  assume "py_get m ''bestBid'' (JInt 0) = Inr b \<and> \<not> truthy b"
  then show "best_bid_of bi m = Inr 0"
    by (simp add: best_bid_of_def py_or_def)
next
  assume "py_get m ''bestAsk'' (JInt 1) = Inr a \<and> \<not> truthy a"
  then show "best_ask_of bi m = Inr 1"
    by (simp add: best_ask_of_def py_or_def double_values)
next
  assume "py_get m ''bestBid'' (JInt 0) = Inr b \<and> truthy b"
  then show "best_bid_of bi m = py_float bi b"
    by (simp add: best_bid_of_def py_or_def)
next
  assume "py_get m ''bestAsk'' (JInt 1) = Inr a \<and> truthy a"
  then show "best_ask_of bi m = py_float bi a"
    by (simp add: best_ask_of_def py_or_def)
next
  show "LOWER_BOUND = 3602879701896397 / 2 ^ 55" "UPPER_BOUND = 8106479329266893 / 2 ^ 53"
    by (rule bounds_values)+
qed

theorem mid_price_bounds_inclusive_witness:
  "mid_price example_builtins (example_market (1 / 2) (1 / 2)) = Inr (1 / 2)
 \<and> get_top_markets example_builtins 100 (Inr (JList [example_market (1 / 2) (1 / 2)]))
      = [example_target]
 \<and> mid_price example_builtins (example_market (9 / 10) (9 / 10)) = Inr UPPER_BOUND
 \<and> get_top_markets example_builtins 100 (Inr (JList [example_market (9 / 10) (9 / 10)]))
      = [example_target]
 \<and> mid_price example_builtins (example_market (1 / 20) (1 / 20))
      = Inr (3602879701896397 / 2 ^ 56)
 \<and> get_top_markets example_builtins 100 (Inr (JList [example_market (1 / 20) (1 / 20)])) = []
 \<and> mid_price example_builtins (example_market (19 / 20) (19 / 20))
      = Inr (4278419646001971 / 2 ^ 52)
 \<and> get_top_markets example_builtins 100 (Inr (JList [example_market (19 / 20) (19 / 20)])) = []
 \<and> mid_price example_builtins (example_market (1 / 50) (9 / 50))
      = Inr (7205759403792793 / 2 ^ 56)
 \<and> get_top_markets example_builtins 100 (Inr (JList [example_market (1 / 50) (9 / 50)])) = []
 \<and> mid_price example_builtins (example_market 0 0) = Inr (1 / 2)
 \<and> get_top_markets example_builtins 100 (Inr (JList [example_market 0 0])) = [example_target]
 \<and> mid_price example_builtins example_huge_bid_market = Inl OverflowError
 \<and> get_top_markets example_builtins 100 (Inr (JList [example_huge_bid_market])) = [example_target]
 \<and> get_top_markets example_builtins 100 (Inr (JList
        [example_market (1 / 20) (1 / 20), example_market (1 / 2) (1 / 2),
         example_market (19 / 20) (19 / 20)]))
      = get_top_markets example_builtins 100 (Inr (JList [example_market (1 / 2) (1 / 2)]))"
proof -
  note T = mid_price_bounds_inclusive
  note tg = example_market_target
  note m = example_mids
  have l: "0 < (100::nat)"
    by simp
  have t: "truthy (JStr ''[101, 102]'')"
    by simp
  have kept: "get_top_markets example_builtins 100 (Inr (JList [example_market bid ask]))
      = (if LOWER_BOUND \<le> p \<and> p \<le> UPPER_BOUND then [example_target] else [])"
    if "mid_price example_builtins (example_market bid ask) = Inr p" for bid ask p
    using T[of example_builtins 100 "[]" "example_market bid ask" p
        "JStr ''[101, 102]''" example_target] that l t tg[of bid ask]
    by blast
  have k50: "get_top_markets example_builtins 100
      (Inr (JList [example_market (1 / 2) (1 / 2)])) = [example_target]"
    unfolding kept[OF m(1)] by (simp add: bounds_values)
  have k00: "get_top_markets example_builtins 100
      (Inr (JList [example_market 0 0])) = [example_target]"
    unfolding kept[OF m(2)] by (simp add: bounds_values)
  have k90: "get_top_markets example_builtins 100
      (Inr (JList [example_market (9 / 10) (9 / 10)])) = [example_target]"
    unfolding kept[OF m(4)] by (simp add: bounds_values)
  have k05: "get_top_markets example_builtins 100
      (Inr (JList [example_market (1 / 20) (1 / 20)])) = []"
    unfolding kept[OF m(5)] by (simp add: bounds_values)
  have k95: "get_top_markets example_builtins 100
      (Inr (JList [example_market (19 / 20) (19 / 20)])) = []"
    unfolding kept[OF m(6)] by (simp add: bounds_values)
  have k10: "get_top_markets example_builtins 100
      (Inr (JList [example_market (1 / 50) (9 / 50)])) = []"
    unfolding kept[OF m(7)] by (simp add: bounds_values)
  have sk: "skip_extreme example_builtins (example_market (1 / 20) (1 / 20))"
    "\<not> skip_extreme example_builtins (example_market (1 / 2) (1 / 2))"
    "skip_extreme example_builtins (example_market (19 / 20) (19 / 20))"
    by (simp_all add: skip_extreme_def m bounds_values)
  have f: "filter (\<lambda>m. \<not> skip_extreme example_builtins m)
        [example_market (1 / 20) (1 / 20), example_market (1 / 2) (1 / 2),
         example_market (19 / 20) (19 / 20)] = [example_market (1 / 2) (1 / 2)]"
    using sk by simp
  have three: "get_top_markets example_builtins 100 (Inr (JList
        [example_market (1 / 20) (1 / 20), example_market (1 / 2) (1 / 2),
         example_market (19 / 20) (19 / 20)]))
      = get_top_markets example_builtins 100 (Inr (JList [example_market (1 / 2) (1 / 2)]))"
    using T[of example_builtins 100
        "[example_market (1 / 20) (1 / 20), example_market (1 / 2) (1 / 2),
          example_market (19 / 20) (19 / 20)]", THEN conjunct1]
    unfolding f .
  have mh: "mid_price example_builtins example_huge_bid_market = Inl OverflowError"
    by (simp add: mid_price_def best_bid_of_def example_huge_bid_market_def py_or_def)
  have "\<not> skip_extreme example_builtins example_huge_bid_market"
    by (rule T[of example_builtins 100 "[]" example_huge_bid_market _ _ _ OverflowError,
        THEN conjunct2, THEN conjunct2, THEN conjunct1, THEN mp, OF mh])
  then have kh: "get_top_markets example_builtins 100 (Inr (JList [example_huge_bid_market]))
      = [example_target]"
    by (simp add: get_top_markets_def example_huge_bid_market_def new_target_def
        example_builtins_def example_target_def)
  show ?thesis
    using m(1) k50 m(4) k90 m(5) k05 m(6) k95 m(7) k10 m(2) k00 mh kh three by (intro conjI)
qed

text \<open>
  The claim as stated fails on the lower bound: a record with best bid and best ask both
  0.10 has mid price exactly 0.10, which is not strictly between 0.10 and 0.90, and it is
  kept.
\<close>

theorem mid_price_on_lower_bound_is_kept:
  "mid_price example_builtins (example_market (1 / 10) (1 / 10)) = Inr LOWER_BOUND
 \<and> \<not> (LOWER_BOUND < LOWER_BOUND \<and> LOWER_BOUND < UPPER_BOUND)
 \<and> get_top_markets example_builtins 100 (Inr (JList [example_market (1 / 10) (1 / 10)]))
      = [example_target]"
  using example_market_kept[OF example_mids(3)] example_mids(3)
  by (simp add: bounds_values)

section \<open>Snapshot poller: one batch\<close>











section \<open>Stream collector: the waits between connection attempts\<close>

lemma reconnect_waits_length: "length (reconnect_waits d as) = length as"
  by (induction d as rule: reconnect_waits.induct) auto

lemma reconnect_waits_after_success:
  "reconnect_waits d (pre @ ConnectedThenClosed # rest) =
     reconnect_waits d pre @ 1 # reconnect_waits 2 rest"
  by (induction d pre rule: reconnect_waits.induct) auto

lemma reconnect_waits_failures:
  "k < n \<Longrightarrow>
   reconnect_waits (min (2 ^ j) 60) (replicate n ConnectFailed) ! k = min (2 ^ (j + k)) 60"
proof (induction n arbitrary: j k)
  case 0
  then show ?case by simp
next
  case (Suc n)
  have dbl: "min (min (2 ^ j) 60 * 2) 60 = min (2 ^ (Suc j)) (60::nat)"
    by simp
  show ?case
  proof (cases k)
    case 0
    then show ?thesis by simp
  next
    case (Suc k')
    then have "k' < n"
      using Suc.prems by simp
    from Suc.IH[OF this, of "Suc j"] show ?thesis
      using Suc dbl by (simp del: power_Suc)
  qed
qed

text \<open>
  Claim C3 (amended). The loop sleeps the current delay first and doubles it afterwards.
  Counted from the start of \<open>run\<close>, the wait that follows the \<open>N\<close>-th consecutive connect
  failure (the wait before attempt \<open>N + 1\<close>) is \<open>min(2^(N-1), 60)\<close> seconds: 1 s after the
  first failure. A successful connect resets the delay, so the wait after that connection
  has ended is 1 s whatever came before, and the wait after \<open>N\<close> further consecutive
  failures is \<open>min(2^N, 60)\<close> seconds.
\<close>

theorem backoff_waits:
  "1 \<le> N \<Longrightarrow>
     run_waits (replicate N ConnectFailed) ! (N - 1) = min (2 ^ (N - 1)) 60
   \<and> run_waits (pre @ [ConnectedThenClosed]) ! length pre = 1
   \<and> run_waits (pre @ ConnectedThenClosed # replicate N ConnectFailed) ! (length pre + N)
        = min (2 ^ N) 60"
proof (intro conjI)
  assume N: "1 \<le> N"
  show "run_waits (replicate N ConnectFailed) ! (N - 1) = min (2 ^ (N - 1)) 60"
    using reconnect_waits_failures[of "N - 1" N 0] N by (simp add: run_waits_def)
  show "run_waits (pre @ [ConnectedThenClosed]) ! length pre = 1"
    by (simp add: run_waits_def reconnect_waits_after_success nth_append reconnect_waits_length)
  have "reconnect_waits 2 (replicate N ConnectFailed) ! (N - 1) = min (2 ^ N) 60"
    using reconnect_waits_failures[of "N - 1" N 1] N by simp
  then show "run_waits (pre @ ConnectedThenClosed # replicate N ConnectFailed) ! (length pre + N)
      = min (2 ^ N) 60"
    using N
    by (simp add: run_waits_def reconnect_waits_after_success nth_append reconnect_waits_length)
qed

theorem backoff_waits_witness:
  "1 \<le> (7::nat)
 \<and> run_waits (replicate 7 ConnectFailed) ! (7 - 1) = 60
 \<and> run_waits ([ConnectFailed, ConnectFailed] @ [ConnectedThenClosed])
      ! length [ConnectFailed, ConnectFailed] = 1
 \<and> run_waits ([ConnectFailed, ConnectFailed] @ ConnectedThenClosed # replicate 7 ConnectFailed)
      ! (length [ConnectFailed, ConnectFailed] + 7) = 60"
  using backoff_waits[of 7 "[ConnectFailed, ConnectFailed]"] by simp

text \<open>
  The claim as stated fails at \<open>N = 1\<close>: after one failed connect from the start the loop
  waits 1 s, where \<open>min(1 * 2^1, 60)\<close> is 2.
\<close>

theorem first_failure_waits_one_second:
  "run_waits (replicate 1 ConnectFailed) ! (1 - 1) = 1
 \<and> run_waits (replicate 1 ConnectFailed) ! (1 - 1) \<noteq> min (1 * 2 ^ 1) 60"
  by (simp add: run_waits_def)

section \<open>Bulk extractor: one request\<close>

lemma upt3: "[0..<3] = [0, 1, 2]"
  by (simp add: upt_rec)

lemma query_three_failures:
  assumes "srv (length (posts w)) q = Raises" "srv (length (posts w) + 1) q = Raises"
    "srv (length (posts w) + 2) q = Raises"
  shows "query_subgraph srv q w
    = (JNull, w\<lparr>posts := posts w @ [(q, Raises), (q, Raises), (q, Raises)],
                 sleeps := sleeps w @ [1, 2, 4]\<rparr>)"
  using assms by (simp add: query_subgraph_def upt3 Let_def)

lemma query_errors_body:
  assumes "srv (length (posts w)) q = Body d" "map_of d ''errors'' \<noteq> None"
  shows "query_subgraph srv q w = (JNull, w\<lparr>posts := posts w @ [(q, Body d)]\<rparr>)"
  using assms by (simp add: query_subgraph_def upt3 Let_def)

lemma query_first_answer:
  assumes "srv (length (posts w)) q = Body d" "map_of d ''errors'' = None"
  shows "query_subgraph srv q w
    = (case map_of d ''data'' of None \<Rightarrow> JNull | Some v \<Rightarrow> v, w\<lparr>posts := posts w @ [(q, Body d)]\<rparr>)"
  using assms by (simp add: query_subgraph_def upt3 Let_def)

lemma query_attempts_bound:
  "length (posts (snd (query_attempts srv q as w))) \<le> length (posts w) + length as"
proof (induction as arbitrary: w)
  case Nil
  then show ?case by simp
next
  case (Cons a as)
  show ?case
  proof (cases "srv (length (posts w)) q")
    case Raises
    then show ?thesis
      using Cons.IH[of "w\<lparr>posts := posts w @ [(q, Raises)], sleeps := sleeps w @ [2 ^ a]\<rparr>"]
      by (simp add: Let_def)
  next
    case (Body d)
    then show ?thesis by (simp add: Let_def)
  qed
qed

section \<open>Bulk extractor: the table\<close>

lemma insert_ignore_append: "insert_ignore t (a @ b) = insert_ignore (insert_ignore t a) b"
  by (induction a arbitrary: t) simp_all

lemma insert_ignore_props:
  "\<exists>added. insert_ignore t rows = t @ added \<and> set added \<subseteq> set rows
      \<and> (\<forall>r\<in>set added. f_id r \<notin> f_id ` set t)"
proof (induction rows arbitrary: t)
  case Nil
  then show ?case by simp
next
  case (Cons r rows)
  show ?case
  proof (cases "f_id r \<in> f_id ` set t")
    case True
    then show ?thesis using Cons.IH[of t] by auto
  next
    case False
    obtain added where a: "insert_ignore (t @ [r]) rows = (t @ [r]) @ added" "set added \<subseteq> set rows"
      "\<forall>x\<in>set added. f_id x \<notin> f_id ` set (t @ [r])"
      using Cons.IH[of "t @ [r]"] by blast
    show ?thesis
      by (rule exI[of _ "r # added"]) (use False a in auto)
  qed
qed

lemma insert_ignore_ids:
  "f_id ` set (insert_ignore t rows) = f_id ` set t \<union> f_id ` set rows"
  by (induction rows arbitrary: t) auto



lemma chunks_concat:
  assumes "0 < n"
  shows "concat (chunks n xs) = xs"
proof -
  have t: "concat (map (\<lambda>i. take n (drop (i * n) xs)) [0..<m]) = take (m * n) xs" for m
  proof (induction m)
    case 0
    then show ?case by simp
  next
    case (Suc m)
    have "take (m * n) xs @ take n (drop (m * n) xs) = take (m * n + n) xs"
      by (simp add: take_add)
    then show ?case
      using Suc by (simp add: add.commute)
  qed
  have "length xs \<le> (length xs + n - 1) div n * n"
  proof -
    have "(length xs + n - 1) mod n < n"
      using assms by simp
    moreover have "(length xs + n - 1) div n * n + (length xs + n - 1) mod n = length xs + n - 1"
      by simp
    ultimately show ?thesis
      using assms by linarith
  qed
  then show ?thesis
    by (simp add: chunks_def t)
qed


lemma foldl_execute_insert:
  "session (foldl execute_insert c ps) = insert_ignore (session c) (concat ps)
 \<and> durable (foldl execute_insert c ps) = durable c
 \<and> calls (foldl execute_insert c ps) = calls c @ map ExecuteInsert ps"
  by (induction ps arbitrary: c) (simp_all add: execute_insert_def insert_ignore_append)

lemma execute_values_effect:
  "session (execute_values c rows) = insert_ignore (session c) rows"
  "durable (execute_values c rows) = durable c"
  "calls (execute_values c rows) = calls c @ map ExecuteInsert (chunks 1000 rows)"
  using foldl_execute_insert[of c "chunks 1000 rows"] chunks_concat[of 1000 rows]
  by (simp_all add: execute_values_def)

lemma commit_effect:
  "session (commit c) = session c" "durable (commit c) = session c"
  "calls (commit c) = calls c @ [Commit]"
  by (simp_all add: commit_def)

section \<open>Bulk extractor: the loop\<close>

lemma failed_page_breaks:
  assumes "fst (query_subgraph srv
      (FilledEvents BATCH_SIZE
         (if truthy (last_id s) then Some (cursor_text bi (last_id s)) else None))
      (ls_world s)) = JNull"
  shows "\<exists>s'. loop_body bi srv s = Break s' \<and> ls_conn s' = ls_conn s
      \<and> total_inserted s' = total_inserted s"
  using assms
  by (auto simp: loop_body_def extract_trades_batch_def Let_def split: prod.splits)

lemma failed_page_completes:
  assumes "fst (query_subgraph srv
      (FilledEvents BATCH_SIZE
         (if truthy (last_id s) then Some (cursor_text bi (last_id s)) else None))
      (ls_world s)) = JNull"
  shows "\<exists>s'. extract_loop bi srv s
        = Some (ExtractionComplete (get_trade_count (ls_conn s)) (total_inserted s), s')
      \<and> ls_conn s' = ls_conn s"
proof -
  obtain s' where "loop_body bi srv s = Break s'" "ls_conn s' = ls_conn s"
    "total_inserted s' = total_inserted s"
    using failed_page_breaks[OF assms] by blast
  then show ?thesis
    by (subst extract_loop.simps) simp
qed

lemma loop_body_conn:
  assumes "durable (ls_conn s) = session (ls_conn s)"
  shows "case loop_body bi srv s of
      Break s' \<Rightarrow> ls_conn s' = ls_conn s
    | Raise e s' \<Rightarrow> durable (ls_conn s') = session (ls_conn s')
         \<and> (\<exists>rows. session (ls_conn s') = insert_ignore (session (ls_conn s)) rows)
    | Continue s' \<Rightarrow> durable (ls_conn s') = session (ls_conn s')
         \<and> (\<exists>rows. session (ls_conn s') = insert_ignore (session (ls_conn s)) rows)"
proof -
  have nil: "\<exists>rows. t = insert_ignore t rows" for t
    by (rule exI[of _ "[]"]) simp
  show ?thesis
    using assms
    by (auto simp: loop_body_def Let_def insert_trades_def commit_effect execute_values_effect
        bindE_Inr_iff nil split: prod.splits sum.splits json.splits if_splits)
qed

lemma extract_loop_durable:
  "extract_loop bi srv s = Some (e, s') \<Longrightarrow> durable (ls_conn s) = session (ls_conn s) \<Longrightarrow>
     durable (ls_conn s') = session (ls_conn s')
   \<and> (\<exists>rows. session (ls_conn s') = insert_ignore (session (ls_conn s)) rows)"
proof (induction bi srv s "(e, s')" rule: extract_loop.raw_induct[rotated 1, consumes 1])
  case (1 extract_loop bi srv s)
  show ?case
  proof (cases "loop_body bi srv s")
    case (Break s1)
    then have "s' = s1"
      using 1(2) by simp
    moreover have "ls_conn s1 = ls_conn s"
      using loop_body_conn[OF 1(3), of bi srv] Break by simp
    moreover have "session (ls_conn s) = insert_ignore (session (ls_conn s)) []"
      by simp
    ultimately show ?thesis
      using 1(3) by metis
  next
    case (Raise x s1)
    then have "s' = s1"
      using 1(2) by simp
    then show ?thesis
      using loop_body_conn[OF 1(3), of bi srv] Raise by simp
  next
    case (Continue s1)
    then have c: "extract_loop bi srv s1 = Some (e, s')"
      using 1(2) by simp
    have d: "durable (ls_conn s1) = session (ls_conn s1)"
      and "\<exists>rows. session (ls_conn s1) = insert_ignore (session (ls_conn s)) rows"
      using loop_body_conn[OF 1(3), of bi srv] Continue by simp_all
    then obtain r1 where r1: "session (ls_conn s1) = insert_ignore (session (ls_conn s)) r1"
      by blast
    from 1(1)[OF c d] obtain r2 where "durable (ls_conn s') = session (ls_conn s')"
      "session (ls_conn s') = insert_ignore (session (ls_conn s1)) r2"
      by blast
    then show ?thesis
      using r1 insert_ignore_append[of "session (ls_conn s)" r1 r2] by metis
  qed
qed















lemma fold_max_ge: "a \<le> fold max xs (a::'a::linorder)"
  by (induction xs arbitrary: a) (auto intro: order_trans[OF max.cobounded2])





lemma expected_posts_sizes:
  "map (\<lambda>p. reply_size (snd p)) (expected_posts c rest) = map length (expected_pages rest)"
proof (induction c rest rule: expected_posts.induct)
  case (1 cursor rest)
  show ?case
    using 1
    by (subst expected_posts.simps, subst expected_pages.simps)
       (simp add: reply_size_def)
qed

lemma is_page_query_FilledEvents [simp]: "is_page_query (FilledEvents n c, r)"
  by (simp add: is_page_query_def)

lemma expected_posts_page_queries:
  "filter is_page_query (expected_posts c rest) = expected_posts c rest"
proof (induction c rest rule: expected_posts.induct)
  case (1 cursor rest)
  show ?case
    using 1 by (subst (1 2) expected_posts.simps) simp
qed










lemma example_remote_length: "length (example_remote n) = n" "length (example_rows n) = n"
  by (simp_all add: example_remote_def example_rows_def)




lemma example_remote_drop_length: "length (drop k (example_remote n)) = n - k"
  by (simp add: example_remote_length)

lemma page_sizes_of_posts:
  "page_reply_sizes (w\<lparr>posts := (GlobalStats, r) # expected_posts c rest\<rparr>)
     = map length (expected_pages rest)"
  by (simp add: page_reply_sizes_def expected_posts_page_queries expected_posts_sizes
      is_page_query_def)

lemma main_durable:
  assumes m: "main bi srv c w = Some (e, s')" and d: "durable c = session c"
  shows "durable (ls_conn s') = session (ls_conn s')
    \<and> (\<exists>rows. durable (ls_conn s') = insert_ignore (durable c) rows)"
proof -
  obtain r w' where g: "get_total_trades bi srv w = (r, w')"
    by (cases "get_total_trades bi srv w")
  let ?s0 = "\<lparr>ls_conn = c, ls_world = w', last_id = JStr (get_last_trade_id c),
                   batch_num = 0, total_inserted = 0\<rparr>"
  have nil: "\<exists>rows. durable c = insert_ignore (durable c) rows"
    by (rule exI[of _ "[]"]) simp
  show ?thesis
  proof (cases r)
    case (Inl x)
    then have "s' = ?s0" using m g by (simp add: main_def Let_def)
    then show ?thesis using d nil by simp
  next
    case (Inr total)
    show ?thesis
    proof (cases "int (get_trade_count c) \<ge> total")
      case True
      then have "s' = ?s0" using m g Inr by (simp add: main_def Let_def)
      then show ?thesis using d nil by simp
    next
      case False
      then have "extract_loop bi srv ?s0 = Some (e, s')"
        using m g Inr by (simp add: main_def Let_def)
      from extract_loop_durable[OF this] d show ?thesis by simp
    qed
  qed
qed

lemma outage_run:
  "main example_builtins (outage_after_first (example_remote 2)) (example_connection 1) empty_world
     = Some (ExtractionComplete 1 0,
         \<lparr>ls_conn = example_connection 1,
          ls_world = \<lparr>posts = [(GlobalStats, stub_reply (example_remote 2) GlobalStats),
                               (FilledEvents 1000 (Some ''a''), Raises),
                               (FilledEvents 1000 (Some ''a''), Raises),
                               (FilledEvents 1000 (Some ''a''), Raises)],
                      sleeps = [1, 2, 4]\<rparr>,
          last_id = JStr ''a'', batch_num = 1, total_inserted = 0\<rparr>)"
proof -
  have t: "get_total_trades example_builtins (outage_after_first (example_remote 2)) empty_world
      = (Inr 2, \<lparr>posts = [(GlobalStats, stub_reply (example_remote 2) GlobalStats)], sleeps = []\<rparr>)"
    by (simp add: get_total_trades_def outage_after_first_def query_first_answer empty_world_def
        example_remote_length)
  have c: "get_trade_count (example_connection 1) = 1"
    "get_last_trade_id (example_connection 1) = ''a''"
    by (simp_all add: get_trade_count_def get_last_trade_id_def example_connection_def
        example_rows_def example_fill_def)
  let ?w = "\<lparr>posts = [(GlobalStats, stub_reply (example_remote 2) GlobalStats)], sleeps = []\<rparr>"
  have q: "query_subgraph (outage_after_first (example_remote 2)) (FilledEvents BATCH_SIZE (Some ''a'')) ?w
      = (JNull, ?w\<lparr>posts := posts ?w @ [(FilledEvents BATCH_SIZE (Some ''a''), Raises),
              (FilledEvents BATCH_SIZE (Some ''a''), Raises), (FilledEvents BATCH_SIZE (Some ''a''), Raises)],
            sleeps := sleeps ?w @ [1, 2, 4]\<rparr>)"
    by (rule query_three_failures) (simp_all add: outage_after_first_def)
  have b: "loop_body example_builtins (outage_after_first (example_remote 2))
      \<lparr>ls_conn = example_connection 1, ls_world = ?w, last_id = JStr ''a'', batch_num = 0, total_inserted = 0\<rparr>
    = Break \<lparr>ls_conn = example_connection 1,
          ls_world = \<lparr>posts = [(GlobalStats, stub_reply (example_remote 2) GlobalStats),
                               (FilledEvents 1000 (Some ''a''), Raises),
                               (FilledEvents 1000 (Some ''a''), Raises),
                               (FilledEvents 1000 (Some ''a''), Raises)],
                      sleeps = [1, 2, 4]\<rparr>,
          last_id = JStr ''a'', batch_num = 1, total_inserted = 0\<rparr>"
    using q by (simp add: loop_body_def extract_trades_batch_def Let_def BATCH_SIZE_def
        cursor_text_def)
  show ?thesis
    using t c b by (simp add: main_def Let_def) (subst extract_loop.simps, simp add: c)
qed


section \<open>Bulk extractor: the claims\<close>




text \<open>
  Claim C5 (amended). A page request is attempted at most three times. An attempt that
  raises (transport or HTTP error) is followed by a sleep of 1 s, 2 s, 4 s for the first,
  second and third attempt, the last sleep coming after the final attempt; a reply that
  carries GraphQL \<open>errors\<close> is not retried. In both cases the request yields \<open>None\<close>, the page
  counts as empty, and the loop ends the way it ends on the last page: the run goes on to
  its final statistics with the table as it was. Whatever way a run ends, everything it
  inserted is committed and the rows that were durable before are still there, so the next
  run takes its cursor from them.
\<close>

theorem failed_request_ends_the_run_as_complete:
  "(srv (length (posts w)) q = Raises \<and> srv (length (posts w) + 1) q = Raises
      \<and> srv (length (posts w) + 2) q = Raises \<longrightarrow>
      query_subgraph srv q w
        = (JNull, w\<lparr>posts := posts w @ [(q, Raises), (q, Raises), (q, Raises)],
                     sleeps := sleeps w @ [1, 2, 4]\<rparr>))
 \<and> (srv (length (posts w)) q = Body d \<and> map_of d ''errors'' \<noteq> None \<longrightarrow>
      query_subgraph srv q w = (JNull, w\<lparr>posts := posts w @ [(q, Body d)]\<rparr>))
 \<and> length (posts (snd (query_subgraph srv q w))) \<le> length (posts w) + 3
 \<and> (fst (query_subgraph srv
            (FilledEvents BATCH_SIZE
               (if truthy (last_id s) then Some (cursor_text bi (last_id s)) else None))
            (ls_world s)) = JNull \<longrightarrow>
      (\<exists>s'. extract_loop bi srv s
            = Some (ExtractionComplete (get_trade_count (ls_conn s)) (total_inserted s), s')
          \<and> ls_conn s' = ls_conn s))
 \<and> (main bi srv c w = Some (e, s1) \<and> durable c = session c \<longrightarrow>
      durable (ls_conn s1) = session (ls_conn s1)
    \<and> (\<exists>added. durable (ls_conn s1) = durable c @ added)
    \<and> f_id ` set (durable c) \<subseteq> f_id ` set (durable (ls_conn s1)))"
proof (intro conjI impI)
  assume "srv (length (posts w)) q = Raises \<and> srv (length (posts w) + 1) q = Raises
      \<and> srv (length (posts w) + 2) q = Raises"
  then show "query_subgraph srv q w
        = (JNull, w\<lparr>posts := posts w @ [(q, Raises), (q, Raises), (q, Raises)],
                     sleeps := sleeps w @ [1, 2, 4]\<rparr>)"
    using query_three_failures by blast
next
  assume "srv (length (posts w)) q = Body d \<and> map_of d ''errors'' \<noteq> None"
  then show "query_subgraph srv q w = (JNull, w\<lparr>posts := posts w @ [(q, Body d)]\<rparr>)"
    using query_errors_body by blast
next
  show "length (posts (snd (query_subgraph srv q w))) \<le> length (posts w) + 3"
    using query_attempts_bound[of srv q "[0..<3]" w] by (simp add: query_subgraph_def)
next
  assume "fst (query_subgraph srv
            (FilledEvents BATCH_SIZE
               (if truthy (last_id s) then Some (cursor_text bi (last_id s)) else None))
            (ls_world s)) = JNull"
  then show "\<exists>s'. extract_loop bi srv s
            = Some (ExtractionComplete (get_trade_count (ls_conn s)) (total_inserted s), s')
          \<and> ls_conn s' = ls_conn s"
    by (rule failed_page_completes)
next
  assume h: "main bi srv c w = Some (e, s1) \<and> durable c = session c"
  then obtain rows where r: "durable (ls_conn s1) = session (ls_conn s1)"
    "durable (ls_conn s1) = insert_ignore (durable c) rows"
    using main_durable[of bi srv c w e s1] by blast
  show "durable (ls_conn s1) = session (ls_conn s1)" by (rule r(1))
  show "\<exists>added. durable (ls_conn s1) = durable c @ added"
    using r(2) insert_ignore_props[of "durable c" rows] by auto
  show "f_id ` set (durable c) \<subseteq> f_id ` set (durable (ls_conn s1))"
    using r(2) insert_ignore_ids[of "durable c" rows] by auto
qed

theorem failed_request_ends_the_run_as_complete_witness:
  "outage_after_first (example_remote 2) 1 (FilledEvents 1000 (Some ''a'')) = Raises
 \<and> outage_after_first (example_remote 2) 2 (FilledEvents 1000 (Some ''a'')) = Raises
 \<and> outage_after_first (example_remote 2) 3 (FilledEvents 1000 (Some ''a'')) = Raises
 \<and> query_subgraph (outage_after_first (example_remote 2)) (FilledEvents 1000 (Some ''a''))
      \<lparr>posts = [(GlobalStats, stub_reply (example_remote 2) GlobalStats)], sleeps = []\<rparr>
    = (JNull,
       \<lparr>posts = [(GlobalStats, stub_reply (example_remote 2) GlobalStats),
                 (FilledEvents 1000 (Some ''a''), Raises),
                 (FilledEvents 1000 (Some ''a''), Raises),
                 (FilledEvents 1000 (Some ''a''), Raises)],
        sleeps = [1, 2, 4]\<rparr>)
 \<and> query_subgraph errors_server GlobalStats empty_world
    = (JNull, \<lparr>posts = [(GlobalStats, Body [(''errors'', JList [JStr ''timeout''])])], sleeps = []\<rparr>)
 \<and> run_ending (main example_builtins (outage_after_first (example_remote 2))
        (example_connection 1) empty_world) = Some (ExtractionComplete 1 0)
 \<and> run_table (main example_builtins (outage_after_first (example_remote 2))
        (example_connection 1) empty_world) = Some (example_rows 1)
 \<and> durable (example_connection 1) = session (example_connection 1)"
proof -
  note T = failed_request_ends_the_run_as_complete
  let ?w1 = "\<lparr>posts = [(GlobalStats, stub_reply (example_remote 2) GlobalStats)], sleeps = []\<rparr>"
  let ?q = "FilledEvents 1000 (Some ''a'')"
  have r: "outage_after_first (example_remote 2) 1 ?q = Raises"
    "outage_after_first (example_remote 2) 2 ?q = Raises"
    "outage_after_first (example_remote 2) 3 ?q = Raises"
    by (simp_all add: outage_after_first_def)
  have r': "outage_after_first (example_remote 2) (length (posts ?w1)) ?q = Raises
      \<and> outage_after_first (example_remote 2) (length (posts ?w1) + 1) ?q = Raises
      \<and> outage_after_first (example_remote 2) (length (posts ?w1) + 2) ?q = Raises"
    by (simp add: outage_after_first_def)
  have "query_subgraph (outage_after_first (example_remote 2)) ?q ?w1
      = (JNull, ?w1\<lparr>posts := posts ?w1 @ [(?q, Raises), (?q, Raises), (?q, Raises)],
                     sleeps := sleeps ?w1 @ [1, 2, 4]\<rparr>)"
    using T[of "outage_after_first (example_remote 2)" ?w1 ?q, THEN conjunct1, THEN mp, OF r'] .
  then have q3: "query_subgraph (outage_after_first (example_remote 2)) ?q ?w1
      = (JNull,
         \<lparr>posts = [(GlobalStats, stub_reply (example_remote 2) GlobalStats),
                   (?q, Raises), (?q, Raises), (?q, Raises)],
          sleeps = [1, 2, 4]\<rparr>)"
    by simp
  have "errors_server (length (posts empty_world)) GlobalStats
        = Body [(''errors'', JList [JStr ''timeout''])]
      \<and> map_of [(''errors'', JList [JStr ''timeout''])] ''errors'' \<noteq> None"
    by (simp add: errors_server_def)
  then have "query_subgraph errors_server GlobalStats empty_world
      = (JNull, empty_world\<lparr>posts := posts empty_world
            @ [(GlobalStats, Body [(''errors'', JList [JStr ''timeout''])])]\<rparr>)"
    using T[of errors_server empty_world GlobalStats "[(''errors'', JList [JStr ''timeout''])]",
        THEN conjunct2, THEN conjunct1]
    by blast
  then have qe: "query_subgraph errors_server GlobalStats empty_world
      = (JNull, \<lparr>posts = [(GlobalStats, Body [(''errors'', JList [JStr ''timeout''])])], sleeps = []\<rparr>)"
    by (simp add: empty_world_def)
  have d: "durable (example_connection 1) = session (example_connection 1)"
    by (simp add: example_connection_def)
  have e: "run_ending (main example_builtins (outage_after_first (example_remote 2))
        (example_connection 1) empty_world) = Some (ExtractionComplete 1 0)"
    and t: "run_table (main example_builtins (outage_after_first (example_remote 2))
        (example_connection 1) empty_world) = Some (example_rows 1)"
    unfolding outage_run run_ending_def run_table_def
    by (simp_all add: example_connection_def)
  show ?thesis
    using r q3 qe e t d by blast
qed

text \<open>
  The claim as stated fails where the retries are exhausted: with an endpoint that answers
  the statistics query and then fails every post, the run makes its three attempts, sleeps
  1 s, 2 s and 4 s, and ends at the final statistics (\<open>Extraction Complete!\<close>) with nothing
  inserted; no exception leaves \<open>main\<close>.
\<close>

theorem exhausted_retries_end_as_complete:
  "main example_builtins (outage_after_first (example_remote 2)) (example_connection 1) empty_world
     = Some (ExtractionComplete 1 0,
         \<lparr>ls_conn = example_connection 1,
          ls_world = \<lparr>posts = [(GlobalStats, stub_reply (example_remote 2) GlobalStats),
                               (FilledEvents 1000 (Some ''a''), Raises),
                               (FilledEvents 1000 (Some ''a''), Raises),
                               (FilledEvents 1000 (Some ''a''), Raises)],
                      sleeps = [1, 2, 4]\<rparr>,
          last_id = JStr ''a'', batch_num = 1, total_inserted = 0\<rparr>)
 \<and> run_ending (main example_builtins (outage_after_first (example_remote 2))
        (example_connection 1) empty_world) \<noteq> Some (Uncaught TypeError)"
  unfolding outage_run run_ending_def by simp





end
